theory Spec2Isabelle
  imports Main "HOL-Library.Sublist"
begin

section \<open>JavaScript values\<close>

text \<open>
  The server keeps its data as plain JavaScript objects that come from \<^verbatim>\<open>JSON.parse\<close>
  (request bodies, the data files). A value is therefore a JSON value; \<^verbatim>\<open>undefined\<close>
  (a missing property) is \<open>None\<close> of \<open>json option\<close>.

  Scope of the model:
  \<^item> a string is a list of code units below 256 (Isabelle's \<open>char\<close>);
  \<^item> a number is an integer whose decimal rendering is its \<^verbatim>\<open>Number::toString\<close>
    (magnitude below \<open>10^21\<close>);
  \<^item> an object is the association list of its own properties in the order in which
    JavaScript enumerates them: the array indices first, ascending, then the other keys
    in the order of their creation;
  \<^item> the prototype of an object is \<^verbatim>\<open>Object.prototype\<close>, and a property that is not an
    own property of one of the two config maps is looked up there (\<open>map_get\<close>). An
    assignment to \<^verbatim>\<open>__proto__\<close> that reaches the setter of \<^verbatim>\<open>Object.prototype\<close> would
    replace the prototype of a map: there the model of a handler is \<open>None\<close>, it says
    nothing.
\<close>

datatype json =
    JNull
  | JBool bool
  | JNum int
  | JStr string
  | JArr "json list"
  | JObj "(string \<times> json) list"

type_synonym obj = "(string \<times> json) list"

text \<open>Truthiness, as \<^verbatim>\<open>if (v)\<close>, \<^verbatim>\<open>!v\<close>, \<^verbatim>\<open>a || b\<close> and \<^verbatim>\<open>a && b\<close> test it.\<close>

fun truthy :: "json \<Rightarrow> bool" where
  "truthy JNull = False"
| "truthy (JBool b) = b"
| "truthy (JNum n) = (n \<noteq> 0)"
| "truthy (JStr s) = (s \<noteq> [])"
| "truthy (JArr xs) = True"
| "truthy (JObj fs) = True"

fun truthy_opt :: "json option \<Rightarrow> bool" where
  "truthy_opt None = False"
| "truthy_opt (Some v) = truthy v"

text \<open>\<^verbatim>\<open>a || b\<close>: the left operand when it is truthy, else the right one.\<close>

definition js_or :: "json option \<Rightarrow> json option \<Rightarrow> json option" where
  "js_or a b = (if truthy_opt a then a else b)"

text \<open>\<^verbatim>\<open>a || 'literal'\<close>: the right operand is a string literal, so the result is defined.\<close>

definition js_or_lit :: "json option \<Rightarrow> string \<Rightarrow> json" where
  "js_or_lit a d = (case a of None \<Rightarrow> JStr d | Some v \<Rightarrow> if truthy v then v else JStr d)"

subsection \<open>Objects\<close>

definition obj_keys :: "obj \<Rightarrow> string list" where
  "obj_keys fs = map fst fs"

text \<open>\<^verbatim>\<open>o[k]\<close> for an own property.\<close>

definition obj_get :: "obj \<Rightarrow> string \<Rightarrow> json option" where
  "obj_get fs k = map_of fs k"

text \<open>\<^verbatim>\<open>delete o[k]\<close>.\<close>

definition obj_delete :: "string \<Rightarrow> obj \<Rightarrow> obj" where
  "obj_delete k fs = filter (\<lambda>kv. fst kv \<noteq> k) fs"

text \<open>\<^verbatim>\<open>v.k\<close> on a value: only an object has the named properties the server reads.\<close>

fun js_get :: "json \<Rightarrow> string \<Rightarrow> json option" where
  "js_get (JObj fs) k = obj_get fs k"
| "js_get v k = None"

subsection \<open>Numbers and strings\<close>

definition digit_char :: "nat \<Rightarrow> char" where
  "digit_char n = ''0123456789'' ! n"

fun show_nat :: "nat \<Rightarrow> string" where
  "show_nat n = (if n < 10 then [digit_char n] else show_nat (n div 10) @ [digit_char (n mod 10)])"

definition show_int :: "int \<Rightarrow> string" where
  "show_int i = (if i < 0 then CHR ''-'' # show_nat (nat (- i)) else show_nat (nat i))"

fun intersperse :: "string \<Rightarrow> string list \<Rightarrow> string" where
  "intersperse sep [] = []"
| "intersperse sep [x] = x"
| "intersperse sep (x # y # ys) = x @ sep @ intersperse sep (y # ys)"

text \<open>
  \<^verbatim>\<open>ToString(v)\<close>: an array joins its elements with commas (\<^verbatim>\<open>null\<close> as the empty
  string), a plain object is \<^verbatim>\<open>[object Object]\<close>.
\<close>

fun js_to_string :: "json \<Rightarrow> string" where
  "js_to_string JNull = ''null''"
| "js_to_string (JBool b) = (if b then ''true'' else ''false'')"
| "js_to_string (JNum n) = show_int n"
| "js_to_string (JStr s) = s"
| "js_to_string (JArr xs) =
     intersperse '','' (map (\<lambda>x. if x = JNull then [] else js_to_string x) xs)"
| "js_to_string (JObj fs) = ''[object Object]''"

text \<open>
  The own enumerable properties that an object spread \<^verbatim>\<open>{...v}\<close> and \<^verbatim>\<open>Object.keys(v)\<close>
  see: the fields of an object, the indexed elements of an array, the indexed characters
  of a string, and nothing for a number, a boolean or \<^verbatim>\<open>null\<close>.
\<close>

fun indexed :: "nat \<Rightarrow> json list \<Rightarrow> obj" where
  "indexed i [] = []"
| "indexed i (x # xs) = (show_nat i, x) # indexed (Suc i) xs"

fun spread :: "json \<Rightarrow> obj" where
  "spread (JObj fs) = fs"
| "spread (JArr xs) = indexed 0 xs"
| "spread (JStr s) = indexed 0 (map (\<lambda>c. JStr [c]) s)"
| "spread v = []"

subsection \<open>Assignment, enumeration order and the prototype\<close>

text \<open>
  An array index is the canonical decimal string of an integer from \<open>0\<close> to \<open>2^32 - 2\<close>.
  JavaScript enumerates the own properties that are array indices first, in ascending
  order, and the other string keys after them, in the order of their creation.
\<close>

definition digit_value :: "char \<Rightarrow> nat option" where
  "digit_value c =
     (let code = (of_char c :: nat)
      in if 48 \<le> code \<and> code \<le> 57 then Some (code - 48) else None)"

fun parse_nat :: "nat \<Rightarrow> string \<Rightarrow> nat option" where
  "parse_nat acc [] = Some acc"
| "parse_nat acc (c # cs) =
     (case digit_value c of None \<Rightarrow> None | Some d \<Rightarrow> parse_nat (10 * acc + d) cs)"

definition array_index :: "string \<Rightarrow> nat option" where
  "array_index k =
     (if k = [] then None
      else (case parse_nat 0 k of
              None \<Rightarrow> None
            | Some n \<Rightarrow> if n < 4294967295 \<and> show_nat n = k then Some n else None))"

text \<open>\<open>precedes k k'\<close>: a new key \<open>k\<close> is enumerated before the existing key \<open>k'\<close>.\<close>

definition precedes :: "string \<Rightarrow> string \<Rightarrow> bool" where
  "precedes k k' =
     (case array_index k of
        None \<Rightarrow> False
      | Some n \<Rightarrow> (case array_index k' of None \<Rightarrow> True | Some n' \<Rightarrow> n < n'))"

fun obj_insert :: "string \<Rightarrow> json \<Rightarrow> obj \<Rightarrow> obj" where
  "obj_insert k v [] = [(k, v)]"
| "obj_insert k v (kv # fs) =
     (if precedes k (fst kv) then (k, v) # kv # fs else kv # obj_insert k v fs)"

text \<open>
  The definition of an own property, as \<^verbatim>\<open>o[k] = v\<close> on an object that has \<open>k\<close> or
  inherits no setter for it, and as a spread, define it: an existing property keeps its
  place, a new one takes its place in the enumeration order.
\<close>

definition obj_set :: "string \<Rightarrow> json \<Rightarrow> obj \<Rightarrow> obj" where
  "obj_set k v fs =
     (if k \<in> set (obj_keys fs) then map (\<lambda>kv. if fst kv = k then (k, v) else kv) fs
      else obj_insert k v fs)"

text \<open>\<^verbatim>\<open>{...a, ...b}\<close>: the properties of \<open>b\<close> are defined over a copy of \<open>a\<close>, in order.\<close>

definition obj_merge :: "obj \<Rightarrow> obj \<Rightarrow> obj" where
  "obj_merge a b = fold (\<lambda>kv acc. obj_set (fst kv) (snd kv) acc) b a"

text \<open>
  The properties of \<^verbatim>\<open>Object.prototype\<close>: its methods, \<^verbatim>\<open>constructor\<close>, and the accessor
  \<^verbatim>\<open>__proto__\<close>. Every one of them is a function, or, for \<^verbatim>\<open>__proto__\<close>, the prototype
  itself: a truthy value with no enumerable own property and none of the properties that
  the server reads from a config.
\<close>

definition objectPrototypeKeys :: "string list" where
  "objectPrototypeKeys =
     [''constructor'', ''__defineGetter__'', ''__defineSetter__'', ''hasOwnProperty'',
      ''__lookupGetter__'', ''__lookupSetter__'', ''isPrototypeOf'', ''propertyIsEnumerable'',
      ''toString'', ''valueOf'', ''__proto__'', ''toLocaleString'']"

text \<open>
  \<^verbatim>\<open>map[k]\<close> on one of the two config maps: its own property, else the property of
  \<^verbatim>\<open>Object.prototype\<close>, else \<^verbatim>\<open>undefined\<close>.
\<close>

datatype found = Absent | Own json | Inherited

definition map_get :: "obj \<Rightarrow> string \<Rightarrow> found" where
  "map_get m k =
     (case obj_get m k of
        Some v \<Rightarrow> Own v
      | None \<Rightarrow> if k \<in> set objectPrototypeKeys then Inherited else Absent)"

fun truthy_found :: "found \<Rightarrow> bool" where
  "truthy_found Absent = False"
| "truthy_found (Own v) = truthy v"
| "truthy_found Inherited = True"

text \<open>\<^verbatim>\<open>config.k\<close> and \<^verbatim>\<open>{...config}\<close> on the value found.\<close>

fun found_get :: "found \<Rightarrow> string \<Rightarrow> json option" where
  "found_get (Own v) k = js_get v k"
| "found_get f k = None"

fun found_spread :: "found \<Rightarrow> obj" where
  "found_spread (Own v) = spread v"
| "found_spread f = []"

text \<open>
  \<^verbatim>\<open>map[k] = v\<close> on one of the two config maps. The assignment defines an own property,
  except for the key \<^verbatim>\<open>__proto__\<close> on a map that has no own property of that name: it
  reaches the setter, which replaces the prototype of the map. That is not modelled.
\<close>

definition assign :: "string \<Rightarrow> json \<Rightarrow> obj \<Rightarrow> obj option" where
  "assign k v m =
     (if k = ''__proto__'' \<and> k \<notin> set (obj_keys m) then None else Some (obj_set k v m))"

subsection \<open>Trimming and splitting\<close>

text \<open>
  White space and line terminators that \<^verbatim>\<open>String.prototype.trim\<close> strips, among the code
  units below 256: TAB, LF, VT, FF, CR, SP and NBSP.
\<close>

definition js_whitespace :: "char \<Rightarrow> bool" where
  "js_whitespace c = (of_char c \<in> {9, 10, 11, 12, 13, 32, 160 :: nat})"

definition trim :: "string \<Rightarrow> string" where
  "trim s = rev (dropWhile js_whitespace (rev (dropWhile js_whitespace s)))"

text \<open>\<^verbatim>\<open>s.split(sep)\<close> for a one-character separator: the empty string gives one empty piece.\<close>

fun js_split :: "char \<Rightarrow> string \<Rightarrow> string list" where
  "js_split sep [] = [[]]"
| "js_split sep (c # cs) =
     (if c = sep then [] # js_split sep cs
      else (case js_split sep cs of
              [] \<Rightarrow> [[c]]
            | p # ps \<Rightarrow> (c # p) # ps))"

section \<open>Errors\<close>

text \<open>
  What the code throws: a \<^verbatim>\<open>TypeError\<close> of the runtime (a method called on a value that
  has none), the \<^verbatim>\<open>Error('No valid recipient phone numbers')\<close> of \<^verbatim>\<open>sendSMS\<close>, and the
  error of a failed HTTP call, with its message.
\<close>

datatype error = TypeError | NoRecipients | Upstream string

section \<open>Parsing the recipients\<close>

text \<open>
  \<^verbatim>\<open>
  function parsePhoneNumbers(phoneString) {
      if (!phoneString) return [];
      return phoneString.split(',').map(num => num.trim()).filter(num => num);
  }
  \<close>
  Only a string has \<^verbatim>\<open>split\<close>: any other truthy argument raises a \<^verbatim>\<open>TypeError\<close>.
\<close>

definition parsePhoneNumbers :: "json option \<Rightarrow> error + string list" where
  "parsePhoneNumbers phoneString =
     (if \<not> truthy_opt phoneString then Inr []
      else (case phoneString of
              Some (JStr s) \<Rightarrow> Inr (filter (\<lambda>num. num \<noteq> []) (map trim (js_split CHR '','' s)))
            | _ \<Rightarrow> Inl TypeError))"

section \<open>Rendering a message\<close>

text \<open>
  \<^verbatim>\<open>String.prototype.replace(pattern, replacement)\<close> with a string pattern replaces the
  first occurrence only. \<open>index_of\<close> is \<^verbatim>\<open>indexOf\<close>: the position of the first occurrence.
\<close>

fun index_of :: "string \<Rightarrow> string \<Rightarrow> nat option" where
  "index_of pat [] = (if pat = [] then Some 0 else None)"
| "index_of pat (c # cs) =
     (if prefix pat (c # cs) then Some 0 else map_option Suc (index_of pat cs))"

text \<open>
  The replacement text is not taken literally: \<^verbatim>\<open>GetSubstitution\<close> expands \<^verbatim>\<open>$$\<close> to a
  dollar sign, \<^verbatim>\<open>$&\<close> to the matched text, \<^verbatim>\<open>$`\<close> to the text before the match and
  \<^verbatim>\<open>$'\<close> to the text after it. A string pattern has no capture groups, so \<^verbatim>\<open>$1\<close>,
  \<^verbatim>\<open>$<name>\<close> and a dollar sign before any other character stay as they are.
\<close>

fun get_substitution :: "string \<Rightarrow> string \<Rightarrow> string \<Rightarrow> string \<Rightarrow> string" where
  "get_substitution matched before after [] = []"
| "get_substitution matched before after [c] = [c]"
| "get_substitution matched before after (c # d # r) =
     (if c \<noteq> CHR ''$'' then c # get_substitution matched before after (d # r)
      else if d = CHR ''$'' then CHR ''$'' # get_substitution matched before after r
      else if d = CHR ''&'' then matched @ get_substitution matched before after r
      else if d = CHR 0x60 then before @ get_substitution matched before after r
      else if d = CHR 0x27 then after @ get_substitution matched before after r
      else CHR ''$'' # get_substitution matched before after (d # r))"

definition js_replace :: "string \<Rightarrow> string \<Rightarrow> string \<Rightarrow> string" where
  "js_replace pat replacement s =
     (case index_of pat s of
        None \<Rightarrow> s
      | Some i \<Rightarrow>
          (let before = take i s; after = drop (i + length pat) s
           in before @ get_substitution pat before after replacement @ after))"

text \<open>
  \<^verbatim>\<open>
  function formatMessage(template, data) {
      let message = template;
      message = message.replace('{callerNumber}', data.callerNumber || 'Unknown');
      message = message.replace('{callerName}', data.callerName || data.callerNumber || 'Unknown');
      message = message.replace('{extension}', data.extension || data.extensionNumber || 'N/A');
      message = message.replace('{time}', new Date().toLocaleTimeString());
      message = message.replace('{date}', new Date().toLocaleDateString());
      message = message.replace('{customMessage}', data.customMessage || 'Notification');
      message = message.replace('{queueName}', data.queueName || 'N/A');
      message = message.replace('{waitTime}', data.waitTime || 'N/A');
      return message;
  }
  \<close>
  The two clock readings are parameters. \<open>data\<close> is read by property name only, so it
  is the map from a property name to its value (\<open>None\<close> for \<^verbatim>\<open>undefined\<close>). A template
  that is not a string has no \<^verbatim>\<open>replace\<close> method: the first call raises a \<^verbatim>\<open>TypeError\<close>.
  A replacement that is not a string is converted with \<^verbatim>\<open>ToString\<close>.
\<close>

definition formatMessage ::
  "string \<Rightarrow> string \<Rightarrow> json option \<Rightarrow> (string \<Rightarrow> json option) \<Rightarrow> error + string" where
  "formatMessage localeTime localeDate template data =
     (case template of
        Some (JStr t) \<Rightarrow>
          (let message = t;
               message = js_replace ''{callerNumber}''
                 (js_to_string (js_or_lit (data ''callerNumber'') ''Unknown'')) message;
               message = js_replace ''{callerName}''
                 (js_to_string (js_or_lit (js_or (data ''callerName'') (data ''callerNumber'')) ''Unknown''))
                 message;
               message = js_replace ''{extension}''
                 (js_to_string (js_or_lit (js_or (data ''extension'') (data ''extensionNumber'')) ''N/A''))
                 message;
               message = js_replace ''{time}'' localeTime message;
               message = js_replace ''{date}'' localeDate message;
               message = js_replace ''{customMessage}''
                 (js_to_string (js_or_lit (data ''customMessage'') ''Notification'')) message;
               message = js_replace ''{queueName}''
                 (js_to_string (js_or_lit (data ''queueName'') ''N/A'')) message;
               message = js_replace ''{waitTime}''
                 (js_to_string (js_or_lit (data ''waitTime'') ''N/A'')) message
           in Inr message)
      | _ \<Rightarrow> Inl TypeError)"

text \<open>
  The eight substitutions of \<open>formatMessage\<close>, in the order of its statements: each
  placeholder with the replacement that the statement computes.
\<close>

definition placeholders :: "string list" where
  "placeholders = [''{callerNumber}'', ''{callerName}'', ''{extension}'', ''{time}'', ''{date}'',
                   ''{customMessage}'', ''{queueName}'', ''{waitTime}'']"

definition replacements ::
  "string \<Rightarrow> string \<Rightarrow> (string \<Rightarrow> json option) \<Rightarrow> (string \<times> string) list" where
  "replacements timeString dateString data =
     [(''{callerNumber}'', js_to_string (js_or_lit (data ''callerNumber'') ''Unknown'')),
      (''{callerName}'',
         js_to_string (js_or_lit (js_or (data ''callerName'') (data ''callerNumber'')) ''Unknown'')),
      (''{extension}'',
         js_to_string (js_or_lit (js_or (data ''extension'') (data ''extensionNumber'')) ''N/A'')),
      (''{time}'', timeString),
      (''{date}'', dateString),
      (''{customMessage}'', js_to_string (js_or_lit (data ''customMessage'') ''Notification'')),
      (''{queueName}'', js_to_string (js_or_lit (data ''queueName'') ''N/A'')),
      (''{waitTime}'', js_to_string (js_or_lit (data ''waitTime'') ''N/A''))]"

text \<open>
  A template seen as pieces: the placeholders it holds, and the text between them.
  \<open>fill_first\<close> is the substitution that the specification describes: the first hole of
  the given name becomes the text of the value, and every later hole of that name stays a
  hole. \<open>occurrences\<close> counts the places of a text where a pattern starts.
\<close>

datatype piece = Text string | Hole string

fun piece_text :: "piece \<Rightarrow> string" where
  "piece_text (Text s) = s"
| "piece_text (Hole p) = p"

definition flatten :: "piece list \<Rightarrow> string" where
  "flatten ps = concat (map piece_text ps)"




text \<open>
  The event data of the webhook handler:
  \<^verbatim>\<open>
  const data = {
      callerNumber: req.body.callerNumber || req.body.caller || req.body.from,
      callerName: req.body.callerName || req.body.name,
      extension: req.body.extension || req.body.extensionNumber || req.body.to,
      customMessage: req.body.message || req.query.message,
      queueName: req.body.queueName,
      waitTime: req.body.waitTime,
      ...req.body
  };
  \<close>
  \<open>body\<close> is the parsed JSON body (an object, or an array). The spread comes last in
  the literal, so an own property of the body replaces the property computed before it:
  \<open>m1 ++ m2\<close> takes \<open>m2\<close> where it is defined.
\<close>

definition aliasFields :: "json \<Rightarrow> json option \<Rightarrow> string \<Rightarrow> json option" where
  "aliasFields body queryMessage k =
     (if k = ''callerNumber'' then
        js_or (js_or (js_get body ''callerNumber'') (js_get body ''caller'')) (js_get body ''from'')
      else if k = ''callerName'' then js_or (js_get body ''callerName'') (js_get body ''name'')
      else if k = ''extension'' then
        js_or (js_or (js_get body ''extension'') (js_get body ''extensionNumber'')) (js_get body ''to'')
      else if k = ''customMessage'' then js_or (js_get body ''message'') queryMessage
      else if k = ''queueName'' then js_get body ''queueName''
      else if k = ''waitTime'' then js_get body ''waitTime''
      else None)"

definition eventData :: "json \<Rightarrow> json option \<Rightarrow> string \<Rightarrow> json option" where
  "eventData body queryMessage = aliasFields body queryMessage ++ obj_get (spread body)"

section \<open>The state of the server and its environment\<close>

record entry =
  timestamp :: string
  action :: string
  webhookName :: json
  details :: json
  version :: string

text \<open>One outbound call to the provider's send endpoint.\<close>

record sms =
  bearer :: "string option"
  contactPhoneNumbers :: "string list"
  smsBody :: string

text \<open>
  A \<^verbatim>\<open>Date\<close>: a time value in milliseconds since the epoch, of magnitude at most
  \<open>8.64 * 10^15\<close>, or the invalid date. \<^verbatim>\<open>new Date(ms)\<close> is invalid beyond that range, and a
  comparison with an invalid date is false.
\<close>

datatype date = Time int | InvalidDate

definition new_date :: "int \<Rightarrow> date" where
  "new_date ms = (if \<bar>ms\<bar> \<le> 8640000000000000 then Time ms else InvalidDate)"

text \<open>
  The module's variables \<^verbatim>\<open>notificationConfigs\<close>, \<^verbatim>\<open>archivedWebhooks\<close>, \<^verbatim>\<open>changelog\<close>,
  \<^verbatim>\<open>accessToken\<close> and \<^verbatim>\<open>tokenExpiry\<close> (\<^verbatim>\<open>null\<close> or a \<^verbatim>\<open>Date\<close>), the content of the
  changelog file, and a log of the calls made to the outside: the number of token
  exchanges and the messages handed to the provider. The files of the two config maps
  are written after each change and read at start-up only; they are not part of the
  state.
\<close>

record state =
  notificationConfigs :: obj
  archivedWebhooks :: obj
  changelog :: "entry list"
  changelogFile :: "entry list"
  accessToken :: "string option"
  tokenExpiry :: "date option"
  exchanges :: nat
  sent :: "sms list"

text \<open>The data of a successful token exchange: \<^verbatim>\<open>response.data\<close>.\<close>

record token_response =
  access_token :: "string option"
  expires_in :: "int option"

text \<open>
  What a request reads from the outside while it runs: the clock (\<open>isoTime\<close> and
  \<open>logTime\<close> are the \<^verbatim>\<open>toISOString\<close> readings of the handler and of \<^verbatim>\<open>addToChangelog\<close>,
  \<open>nowCheck\<close> and \<open>nowStore\<close> the readings in milliseconds when \<^verbatim>\<open>getAccessToken\<close> tests
  and sets the expiry), the outcome of the token exchange and of the send call if they are
  made, and whether writing the changelog file succeeds.
\<close>

record env =
  isoTime :: string
  logTime :: string
  localeTime :: string
  localeDate :: string
  nowCheck :: int
  exchange :: "error + token_response"
  nowStore :: int
  delivery :: "error + json"
  writeOk :: bool

section \<open>The changelog\<close>

text \<open>\<^verbatim>\<open>xs.slice(-n)\<close>: the last \<open>n\<close> elements, all of them when there are fewer.\<close>

definition slice_last :: "nat \<Rightarrow> 'a list \<Rightarrow> 'a list" where
  "slice_last n xs = drop (length xs - n) xs"

text \<open>
  The server with persistence (version 3.0.0):
  \<^verbatim>\<open>
  async function saveChangelog(changelog) {
      try {
          // Keep only last 100 entries
          const trimmed = changelog.slice(-100);
          await fs.writeFile(CHANGELOG_FILE, JSON.stringify(trimmed, null, 2));
      } catch (error) { console.error('Error saving changelog:', error); }
  }
  async function addToChangelog(action, webhookName, details = {}) {
      changelog.push({ timestamp: new Date().toISOString(), action, webhookName, details,
                       version: APP_VERSION });
      await saveChangelog(changelog);
  }
  \<close>
  \<open>trimmed\<close> is a copy: the variable \<^verbatim>\<open>changelog\<close> keeps every entry.
\<close>

definition saveChangelog :: "env \<Rightarrow> entry list \<Rightarrow> state \<Rightarrow> state" where
  "saveChangelog e log s =
     (let trimmed = slice_last 100 log
      in if writeOk e then s\<lparr>changelogFile := trimmed\<rparr> else s)"

definition addToChangelog :: "env \<Rightarrow> string \<Rightarrow> json \<Rightarrow> json \<Rightarrow> state \<Rightarrow> state" where
  "addToChangelog e act name det s =
     (let s1 = s\<lparr>changelog := changelog s @
                  [\<lparr>timestamp = logTime e, action = act, webhookName = name, details = det,
                    version = ''3.0.0''\<rparr>]\<rparr>
      in saveChangelog e (changelog s1) s1)"

text \<open>
  The server without persistence (\<^verbatim>\<open>app.js\<close>, version 2.0.0) truncates the variable itself:
  \<^verbatim>\<open>
  function addToChangelog(action, webhookName, details = {}) {
      changelog.push({ ... version: APP_VERSION });
      // Keep only last 100 entries
      if (changelog.length > 100) {
          changelog = changelog.slice(-100);
      }
  }
  \<close>
\<close>

definition addToChangelog_v2 :: "env \<Rightarrow> string \<Rightarrow> json \<Rightarrow> json \<Rightarrow> state \<Rightarrow> state" where
  "addToChangelog_v2 e act name det s =
     (let s1 = s\<lparr>changelog := changelog s @
                  [\<lparr>timestamp = logTime e, action = act, webhookName = name, details = det,
                    version = ''2.0.0''\<rparr>]\<rparr>
      in if length (changelog s1) > 100 then s1\<lparr>changelog := slice_last 100 (changelog s1)\<rparr>
         else s1)"

section \<open>The credential cache\<close>

text \<open>
  \<^verbatim>\<open>
  async function getAccessToken() {
      if (accessToken && tokenExpiry && new Date() < tokenExpiry) {
          return accessToken;
      }
      try {
          ...
          const response = await axios.post(config.tokenUrl, params, {...});
          accessToken = response.data.access_token;
          const expiresIn = response.data.expires_in || 3600;
          tokenExpiry = new Date(Date.now() + ((expiresIn - 300) * 1000));
          return accessToken;
      } catch (error) { console.error(...); throw error; }
  }
  \<close>
  An empty token is falsy, and so is a lifetime of zero. The clock readings are time
  values and the lifetime is an integer; the sum is then either computed exactly or far
  outside the range of \<^verbatim>\<open>Date\<close>, so that \<open>new_date\<close> of the exact sum is the date built.
\<close>

definition token_valid :: "env \<Rightarrow> state \<Rightarrow> bool" where
  "token_valid e s =
     (case accessToken s of
        None \<Rightarrow> False
      | Some tok \<Rightarrow>
          (case tokenExpiry s of
             None \<Rightarrow> False
           | Some InvalidDate \<Rightarrow> False
           | Some (Time expiry) \<Rightarrow> tok \<noteq> [] \<and> nowCheck e < expiry))"

text \<open>\<^verbatim>\<open>response.data.expires_in || 3600\<close>.\<close>

definition lifetime :: "token_response \<Rightarrow> int" where
  "lifetime response =
     (case expires_in response of None \<Rightarrow> 3600 | Some n \<Rightarrow> if n = 0 then 3600 else n)"

definition getAccessToken :: "env \<Rightarrow> state \<Rightarrow> (error + string option) \<times> state" where
  "getAccessToken e s =
     (if token_valid e s then (Inr (accessToken s), s)
      else
        (case exchange e of
           Inl err \<Rightarrow> (Inl err, s\<lparr>exchanges := Suc (exchanges s)\<rparr>)
         | Inr response \<Rightarrow>
             (let expiresIn = lifetime response
              in (Inr (access_token response),
                  s\<lparr>accessToken := access_token response,
                    tokenExpiry := Some (new_date (nowStore e + (expiresIn - 300) * 1000)),
                    exchanges := Suc (exchanges s)\<rparr>))))"

section \<open>Sending\<close>

text \<open>
  \<^verbatim>\<open>
  async function sendSMS(message, recipients) {
      try {
          const token = await getAccessToken();
          const phoneNumbers = parsePhoneNumbers(recipients);
          if (phoneNumbers.length === 0) {
              throw new Error('No valid recipient phone numbers');
          }
          const options = { method: 'POST', url: config.smsApiUrl,
              headers: { Authorization: `Bearer ${token}`, ... },
              data: { ownerPhoneNumber: config.gotoPhoneNumber,
                      contactPhoneNumbers: phoneNumbers, body: message } };
          const response = await axios.request(options);
          return response.data;
      } catch (error) { console.error(...); throw error; }
  }
  \<close>
\<close>

definition sendSMS :: "env \<Rightarrow> string \<Rightarrow> json option \<Rightarrow> state \<Rightarrow> (error + json) \<times> state" where
  "sendSMS e message recipients s =
     (case getAccessToken e s of
        (Inl err, s1) \<Rightarrow> (Inl err, s1)
      | (Inr token, s1) \<Rightarrow>
          (case parsePhoneNumbers recipients of
             Inl err \<Rightarrow> (Inl err, s1)
           | Inr phoneNumbers \<Rightarrow>
               if length phoneNumbers = 0 then (Inl NoRecipients, s1)
               else
                 (let s2 = s1\<lparr>sent := sent s1 @
                             [\<lparr>bearer = token, contactPhoneNumbers = phoneNumbers,
                               smsBody = message\<rparr>]\<rparr>
                  in (case delivery e of
                        Inl err \<Rightarrow> (Inl err, s2)
                      | Inr d \<Rightarrow> (Inr d, s2)))))"

section \<open>HTTP handlers\<close>

text \<open>
  A response is a status with a JSON body. \<open>Failure err\<close> is the response of a \<^verbatim>\<open>catch\<close>
  block: status 500 with \<^verbatim>\<open>{success: false, error: error.message}\<close>.
\<close>

datatype response = Response nat json | Failure error

definition errorBody :: "string \<Rightarrow> json" where
  "errorBody msg = JObj [(''error'', JStr msg)]"

definition successBody :: "string \<Rightarrow> json" where
  "successBody msg = JObj [(''success'', JBool True), (''message'', JStr msg)]"

subsection \<open>The webhook: \<^verbatim>\<open>POST /sms-whook/:type\<close>\<close>

text \<open>
  \<^verbatim>\<open>
  const notificationType = req.params.type;
  const config = notificationConfigs[notificationType];
  if (!config) {
      return res.status(404).json({ error: 'Unknown notification type',
                                    available: Object.keys(notificationConfigs) });
  }
  try {
      const data = { ... };
      const message = formatMessage(config.messageTemplate, data);
      await sendSMS(message, config.recipients);
      await addToChangelog('webhook_triggered', notificationType,
                           { callerNumber: data.callerNumber });
      res.status(200).json({ success: true, type: notificationType,
          message: 'Notification sent successfully',
          recipientCount: parsePhoneNumbers(config.recipients).length });
  } catch (error) {
      res.status(500).json({ success: false, error: error.message });
  }
  \<close>
  The details of the changelog entry are written as their JSON: a property whose value is
  \<^verbatim>\<open>undefined\<close> is left out.
\<close>

definition unknownType :: "state \<Rightarrow> response" where
  "unknownType s =
     Response 404 (JObj [(''error'', JStr ''Unknown notification type''),
                         (''available'', JArr (map JStr (obj_keys (notificationConfigs s))))])"

definition triggered :: "env \<Rightarrow> string \<Rightarrow> json \<Rightarrow> json option \<Rightarrow> found \<Rightarrow> state \<Rightarrow> response \<times> state" where
  "triggered e notificationType body queryMessage config s =
     (let data = eventData body queryMessage
      in case formatMessage (localeTime e) (localeDate e) (found_get config ''messageTemplate'') data of
           Inl err \<Rightarrow> (Failure err, s)
         | Inr message \<Rightarrow>
             (case sendSMS e message (found_get config ''recipients'') s of
                (Inl err, s1) \<Rightarrow> (Failure err, s1)
              | (Inr d, s1) \<Rightarrow>
                  (let s2 = addToChangelog e ''webhook_triggered'' (JStr notificationType)
                              (JObj (case data ''callerNumber'' of
                                       None \<Rightarrow> []
                                     | Some v \<Rightarrow> [(''callerNumber'', v)])) s1
                   in case parsePhoneNumbers (found_get config ''recipients'') of
                        Inl err \<Rightarrow> (Failure err, s2)
                      | Inr phoneNumbers \<Rightarrow>
                          (Response 200
                             (JObj [(''success'', JBool True),
                                    (''type'', JStr notificationType),
                                    (''message'', JStr ''Notification sent successfully''),
                                    (''recipientCount'', JNum (int (length phoneNumbers)))]),
                           s2))))"

definition postSmsWhook :: "env \<Rightarrow> string \<Rightarrow> json \<Rightarrow> json option \<Rightarrow> state \<Rightarrow> response \<times> state" where
  "postSmsWhook e notificationType body queryMessage s =
     (let config = map_get (notificationConfigs s) notificationType
      in if \<not> truthy_found config then (unknownType s, s)
         else triggered e notificationType body queryMessage config s)"

subsection \<open>The Configuration Store: \<^verbatim>\<open>/api/webhooks\<close> and \<^verbatim>\<open>/api/import\<close>\<close>

text \<open>
  \<^verbatim>\<open>
  app.post('/api/webhooks', async (req, res) => {
      const { name, config } = req.body;
      if (name && config) {
          notificationConfigs[name] = config;
          await saveWebhooks(notificationConfigs);
          await addToChangelog('webhook_created', name, config);
          res.json({ success: true, message: 'Webhook created' });
      } else {
          res.status(400).json({ error: 'Invalid webhook data' });
      }
  });
  \<close>
  The model covers the names that are strings. A truthy name of another type is converted
  to a property key by the runtime, for an object by a call of its \<^verbatim>\<open>toString\<close>: there
  the model is \<open>None\<close>.
\<close>

definition postWebhooks :: "env \<Rightarrow> json \<Rightarrow> state \<Rightarrow> (response \<times> state) option" where
  "postWebhooks e body s =
     (case js_get body ''name'' of
        None \<Rightarrow> Some (Response 400 (errorBody ''Invalid webhook data''), s)
      | Some name \<Rightarrow>
          (case js_get body ''config'' of
             None \<Rightarrow> Some (Response 400 (errorBody ''Invalid webhook data''), s)
           | Some config \<Rightarrow>
               if truthy name \<and> truthy config then
                 (case name of
                    JStr key \<Rightarrow>
                      (case assign key config (notificationConfigs s) of
                         None \<Rightarrow> None
                       | Some configs \<Rightarrow>
                           Some (Response 200 (successBody ''Webhook created''),
                                 addToChangelog e ''webhook_created'' name config
                                   (s\<lparr>notificationConfigs := configs\<rparr>)))
                  | _ \<Rightarrow> None)
               else Some (Response 400 (errorBody ''Invalid webhook data''), s)))"

text \<open>
  \<^verbatim>\<open>
  app.put('/api/webhooks/:name', async (req, res) => {
      const name = req.params.name;
      const config = req.body;
      if (notificationConfigs[name]) {
          const oldConfig = { ...notificationConfigs[name] };
          notificationConfigs[name] = { ...notificationConfigs[name], ...config };
          await saveWebhooks(notificationConfigs);
          await addToChangelog('webhook_updated', name,
                               { old: oldConfig, new: notificationConfigs[name] });
          res.json({ success: true, message: 'Webhook updated' });
      } else {
          res.status(404).json({ error: 'Webhook not found' });
      }
  });
  \<close>
\<close>

definition putWebhook :: "env \<Rightarrow> string \<Rightarrow> json \<Rightarrow> state \<Rightarrow> (response \<times> state) option" where
  "putWebhook e name config s =
     (let current = map_get (notificationConfigs s) name
      in if truthy_found current then
           (let oldConfig = JObj (found_spread current);
                newConfig = JObj (obj_merge (found_spread current) (spread config))
            in case assign name newConfig (notificationConfigs s) of
                 None \<Rightarrow> None
               | Some configs \<Rightarrow>
                   Some (Response 200 (successBody ''Webhook updated''),
                         addToChangelog e ''webhook_updated'' (JStr name)
                           (JObj [(''old'', oldConfig), (''new'', newConfig)])
                           (s\<lparr>notificationConfigs := configs\<rparr>)))
         else Some (Response 404 (errorBody ''Webhook not found''), s))"

text \<open>
  \<^verbatim>\<open>
  app.post('/api/webhooks/:name/archive', async (req, res) => {
      const name = req.params.name;
      if (notificationConfigs[name]) {
          archivedWebhooks[name] = { ...notificationConfigs[name],
                                     archivedAt: new Date().toISOString() };
          delete notificationConfigs[name];
          await saveWebhooks(notificationConfigs);
          await saveArchived(archivedWebhooks);
          await addToChangelog('webhook_archived', name);
          res.json({ success: true, message: 'Webhook archived' });
      } else {
          res.status(404).json({ error: 'Webhook not found' });
      }
  });
  \<close>
\<close>

definition postArchive :: "env \<Rightarrow> string \<Rightarrow> state \<Rightarrow> (response \<times> state) option" where
  "postArchive e name s =
     (let current = map_get (notificationConfigs s) name
      in if truthy_found current then
           (case assign name
                   (JObj (obj_set ''archivedAt'' (JStr (isoTime e)) (found_spread current)))
                   (archivedWebhooks s) of
              None \<Rightarrow> None
            | Some archived \<Rightarrow>
                (let s1 = s\<lparr>archivedWebhooks := archived\<rparr>;
                     s2 = s1\<lparr>notificationConfigs := obj_delete name (notificationConfigs s1)\<rparr>
                 in Some (Response 200 (successBody ''Webhook archived''),
                          addToChangelog e ''webhook_archived'' (JStr name) (JObj []) s2)))
         else Some (Response 404 (errorBody ''Webhook not found''), s))"

text \<open>
  \<^verbatim>\<open>
  app.post('/api/webhooks/:name/restore', async (req, res) => {
      const name = req.params.name;
      if (archivedWebhooks[name]) {
          notificationConfigs[name] = { ...archivedWebhooks[name] };
          delete notificationConfigs[name].archivedAt;
          delete archivedWebhooks[name];
          await saveWebhooks(notificationConfigs);
          await saveArchived(archivedWebhooks);
          await addToChangelog('webhook_restored', name);
          res.json({ success: true, message: 'Webhook restored' });
      } else {
          res.status(404).json({ error: 'Archived webhook not found' });
      }
  });
  \<close>
\<close>

definition postRestore :: "env \<Rightarrow> string \<Rightarrow> state \<Rightarrow> (response \<times> state) option" where
  "postRestore e name s =
     (let archived = map_get (archivedWebhooks s) name
      in if truthy_found archived then
           (case assign name (JObj (obj_delete ''archivedAt'' (found_spread archived)))
                   (notificationConfigs s) of
              None \<Rightarrow> None
            | Some configs \<Rightarrow>
                (let s1 = s\<lparr>notificationConfigs := configs\<rparr>;
                     s2 = s1\<lparr>archivedWebhooks := obj_delete name (archivedWebhooks s1)\<rparr>
                 in Some (Response 200 (successBody ''Webhook restored''),
                          addToChangelog e ''webhook_restored'' (JStr name) (JObj []) s2)))
         else Some (Response 404 (errorBody ''Archived webhook not found''), s))"

text \<open>
  \<^verbatim>\<open>
  app.post('/api/import', async (req, res) => {
      try {
          const { webhooks, archived } = req.body;
          if (webhooks) {
              notificationConfigs = { ...notificationConfigs, ...webhooks };
              await saveWebhooks(notificationConfigs);
          }
          if (archived) {
              archivedWebhooks = { ...archivedWebhooks, ...archived };
              await saveArchived(archivedWebhooks);
          }
          await addToChangelog('data_imported', 'system',
                               { webhookCount: Object.keys(webhooks || {}).length });
          res.json({ success: true, message: 'Data imported successfully' });
      } catch (error) { res.status(500).json({ error: 'Import failed: ' + error.message }); }
  });
  \<close>
  \<open>imported v\<close> is what a truthy \<open>v\<close> contributes to the spread, and nothing otherwise.
\<close>

definition imported :: "json option \<Rightarrow> obj" where
  "imported v = (case v of None \<Rightarrow> [] | Some x \<Rightarrow> if truthy x then spread x else [])"

definition postImport :: "env \<Rightarrow> json \<Rightarrow> state \<Rightarrow> response \<times> state" where
  "postImport e body s =
     (let webhooks = js_get body ''webhooks'';
          archived = js_get body ''archived'';
          s1 = (if truthy_opt webhooks
                then s\<lparr>notificationConfigs := obj_merge (notificationConfigs s) (imported webhooks)\<rparr>
                else s);
          s2 = (if truthy_opt archived
                then s1\<lparr>archivedWebhooks := obj_merge (archivedWebhooks s1) (imported archived)\<rparr>
                else s1)
      in (Response 200 (successBody ''Data imported successfully''),
          addToChangelog e ''data_imported'' (JStr ''system'')
            (JObj [(''webhookCount'', JNum (int (length (obj_keys (imported webhooks)))))]) s2))"

subsection \<open>Sequences of management requests\<close>

datatype request =
    PostWebhooks json
  | PutWebhook string json
  | PostArchive string
  | PostRestore string
  | PostImport json

fun handle :: "env \<Rightarrow> request \<Rightarrow> state \<Rightarrow> (response \<times> state) option" where
  "handle e (PostWebhooks body) s = postWebhooks e body s"
| "handle e (PutWebhook name config) s = putWebhook e name config s"
| "handle e (PostArchive name) s = postArchive e name s"
| "handle e (PostRestore name) s = postRestore e name s"
| "handle e (PostImport body) s = Some (postImport e body s)"

text \<open>The state after a sequence of requests; \<open>None\<close> when one of them leaves the model.\<close>

fun run :: "(env \<times> request) list \<Rightarrow> state \<Rightarrow> state option" where
  "run [] s = Some s"
| "run (er # rs) s =
     (case handle (fst er) (snd er) s of
        None \<Rightarrow> None
      | Some rs1 \<Rightarrow> run rs (snd rs1))"

text \<open>The invariant of the data model: no name is both active and archived.\<close>

definition disjoint_maps :: "state \<Rightarrow> bool" where
  "disjoint_maps s =
     (set (obj_keys (notificationConfigs s)) \<inter> set (obj_keys (archivedWebhooks s)) = {})"

text \<open>
  The requests that cannot break the invariant: an update of a name that
  \<^verbatim>\<open>Object.prototype\<close> does not have; an archive or a restore of a name other than
  \<^verbatim>\<open>__proto__\<close>; a create whose name is a string other than \<^verbatim>\<open>__proto__\<close> that is not
  archived; an import whose active names are archived neither in the store nor in the
  import, and whose archived names are not active in the store.
\<close>

fun admissible :: "state \<Rightarrow> request \<Rightarrow> bool" where
  "admissible s (PostWebhooks body) =
     (case js_get body ''name'' of
        None \<Rightarrow> True
      | Some (JStr key) \<Rightarrow>
          key \<noteq> ''__proto__'' \<and> key \<notin> set (obj_keys (archivedWebhooks s))
      | Some name \<Rightarrow> \<not> truthy name)"
| "admissible s (PutWebhook name config) = (name \<notin> set objectPrototypeKeys)"
| "admissible s (PostArchive name) = (name \<noteq> ''__proto__'')"
| "admissible s (PostRestore name) = (name \<noteq> ''__proto__'')"
| "admissible s (PostImport body) =
     (let webhooks = imported (js_get body ''webhooks'');
          archived = imported (js_get body ''archived'')
      in set (obj_keys webhooks) \<inter> (set (obj_keys (archivedWebhooks s)) \<union> set (obj_keys archived)) = {}
         \<and> set (obj_keys archived) \<inter> set (obj_keys (notificationConfigs s)) = {})"

fun admissible_run :: "state \<Rightarrow> (env \<times> request) list \<Rightarrow> bool" where
  "admissible_run s [] = True"
| "admissible_run s (er # rs) =
     (admissible s (snd er) \<and>
      (case handle (fst er) (snd er) s of
         None \<Rightarrow> False
       | Some rs1 \<Rightarrow> admissible_run (snd rs1) rs))"

fun lifecycle :: "request \<Rightarrow> bool" where
  "lifecycle (PutWebhook name config) = (name \<notin> set objectPrototypeKeys)"
| "lifecycle (PostArchive name) = (name \<noteq> ''__proto__'')"
| "lifecycle (PostRestore name) = (name \<noteq> ''__proto__'')"
| "lifecycle r = False"

text \<open>What \<^verbatim>\<open>GET /api/webhooks\<close> shows after a sequence of requests.\<close>

definition active_after :: "(env \<times> request) list \<Rightarrow> state \<Rightarrow> string \<Rightarrow> json option" where
  "active_after rs s k =
     (case run rs s of None \<Rightarrow> None | Some s' \<Rightarrow> obj_get (notificationConfigs s') k)"

definition disjoint_after :: "(env \<times> request) list \<Rightarrow> state \<Rightarrow> bool option" where
  "disjoint_after rs s = map_option disjoint_maps (run rs s)"

section \<open>Concrete inputs\<close>

text \<open>
  The state of a server that has just started with no data file, a clock and an outside
  world in which every call succeeds, a changelog entry and a config.
\<close>

definition initial :: state where
  "initial = \<lparr>notificationConfigs = [], archivedWebhooks = [], changelog = [], changelogFile = [],
              accessToken = None, tokenExpiry = None, exchanges = 0, sent = []\<rparr>"

definition env0 :: env where
  "env0 = \<lparr>isoTime = ''2025-01-01T00:00:00.000Z'', logTime = ''2025-01-01T00:00:00.001Z'',
           localeTime = ''12:00:00 AM'', localeDate = ''1/1/2025'',
           nowCheck = 1000, exchange = Inr \<lparr>access_token = Some ''tok-1'', expires_in = Some 3600\<rparr>,
           nowStore = 2000, delivery = Inr (JObj [(''id'', JStr ''m-1'')]), writeOk = True\<rparr>"

definition entry0 :: entry where
  "entry0 = \<lparr>timestamp = ''2024-12-31T00:00:00.000Z'', action = ''webhook_created'',
             webhookName = JStr ''vip'', details = JObj [], version = ''3.0.0''\<rparr>"

definition vip :: json where
  "vip = JObj [(''recipients'', JStr ''+16158305740''),
               (''messageTemplate'', JStr ''VIP Customer Calling: {callerName} {callerNumber} {time}''),
               (''description'', JStr ''VIP customer call alerts''),
               (''email'', JStr []),
               (''browserNotify'', JBool False),
               (''tags'', JArr [JStr ''vip''])]"

section \<open>Splitting and trimming\<close>

lemma js_split_nonempty: "js_split sep s \<noteq> []"
  by (induction s) (auto split: list.splits)

lemma intersperse_Cons: "ps \<noteq> [] \<Longrightarrow> intersperse sep (p # ps) = p @ sep @ intersperse sep ps"
  by (cases ps) auto

text \<open>Joining the pieces with the separator gives the input back, and no piece holds one.\<close>

lemma js_split_join: "intersperse [sep] (js_split sep s) = s"
proof (induction s)
  case Nil
  show ?case by simp
next
  case (Cons c cs)
  obtain p ps where sp: "js_split sep cs = p # ps"
    using js_split_nonempty [of sep cs] by (cases "js_split sep cs") auto
  show ?case
  proof (cases "c = sep")
    case True
    then show ?thesis using Cons.IH sp by (simp add: intersperse_Cons)
  next
    case False
    then show ?thesis using Cons.IH sp by (cases ps) auto
  qed
qed

lemma js_split_no_sep: "p \<in> set (js_split sep s) \<Longrightarrow> sep \<notin> set p"
  by (induction s arbitrary: p) (auto split: list.splits if_splits)

text \<open>\<open>trim\<close> removes white space at both ends, and only white space.\<close>

lemma trim_suffix: "\<exists>b. dropWhile js_whitespace s = trim s @ b \<and> list_all js_whitespace b"
proof -
  let ?r = "dropWhile js_whitespace s"
  let ?b = "rev (takeWhile js_whitespace (rev ?r))"
  have "?r = trim s @ ?b"
    unfolding trim_def by (metis rev_append rev_rev_ident takeWhile_dropWhile_id)
  moreover have "list_all js_whitespace ?b"
    by (simp add: list_all_iff) (meson set_takeWhileD)
  ultimately show ?thesis by blast
qed

lemma trim_decomp:
  "\<exists>a b. s = a @ trim s @ b \<and> list_all js_whitespace a \<and> list_all js_whitespace b"
proof -
  let ?a = "takeWhile js_whitespace s"
  obtain b where b: "dropWhile js_whitespace s = trim s @ b" "list_all js_whitespace b"
    using trim_suffix by blast
  have "s = ?a @ trim s @ b"
    using b(1) by (metis takeWhile_dropWhile_id)
  moreover have "list_all js_whitespace ?a"
    by (simp add: list_all_iff) (meson set_takeWhileD)
  ultimately show ?thesis using b(2) by blast
qed

lemma trim_ends:
  assumes ne: "trim s \<noteq> []"
  shows "\<not> js_whitespace (hd (trim s)) \<and> \<not> js_whitespace (last (trim s))"
proof -
  let ?r = "dropWhile js_whitespace s"
  let ?q = "dropWhile js_whitespace (rev ?r)"
  have q: "?q \<noteq> []" using ne by (simp add: trim_def)
  then have "\<not> js_whitespace (hd ?q)" by (metis hd_dropWhile)
  then have l: "\<not> js_whitespace (last (trim s))"
    using q by (simp add: trim_def last_rev)
  have "?r \<noteq> []" using q by (metis dropWhile.simps(1) rev.simps(1))
  then have h: "\<not> js_whitespace (hd ?r)" by (metis hd_dropWhile)
  obtain b where "?r = trim s @ b" using trim_suffix by blast
  then have "hd ?r = hd (trim s)" using ne by (metis hd_append2)
  then show ?thesis using h l by simp
qed

text \<open>
  C9. \<open>parsePhoneNumbers\<close> of a string splits it at the commas (the pieces, joined with
  commas, are the input, and no piece holds a comma), trims each piece (white space is
  removed at both ends, and nothing else), drops the empty pieces and keeps the order.
  The input \<^verbatim>\<open>" +1555,, +1666 ,"\<close> gives \<^verbatim>\<open>["+1555", "+1666"]\<close>; a falsy input
  (\<^verbatim>\<open>undefined\<close>, \<^verbatim>\<open>null\<close>, the empty string, \<^verbatim>\<open>0\<close>, \<^verbatim>\<open>false\<close>) gives the empty list.
\<close>

theorem parsePhoneNumbers_splits_trims_drops:
  "parsePhoneNumbers (Some (JStr s)) =
     Inr (filter (\<lambda>num. num \<noteq> []) (map trim (js_split CHR '','' s)))
   \<and> intersperse '','' (js_split CHR '','' s) = s
   \<and> (\<forall>p \<in> set (js_split CHR '','' s). CHR '','' \<notin> set p)
   \<and> (\<exists>a b. p = a @ trim p @ b \<and> list_all js_whitespace a \<and> list_all js_whitespace b)
   \<and> (trim p \<noteq> [] \<longrightarrow> \<not> js_whitespace (hd (trim p)) \<and> \<not> js_whitespace (last (trim p)))
   \<and> parsePhoneNumbers (Some (JStr '' +1555,, +1666 ,'')) = Inr [''+1555'', ''+1666'']
   \<and> parsePhoneNumbers None = Inr []
   \<and> parsePhoneNumbers (Some JNull) = Inr []
   \<and> parsePhoneNumbers (Some (JStr [])) = Inr []
   \<and> parsePhoneNumbers (Some (JNum 0)) = Inr []
   \<and> parsePhoneNumbers (Some (JBool False)) = Inr []"
proof -
  have "parsePhoneNumbers (Some (JStr s)) =
     Inr (filter (\<lambda>num. num \<noteq> []) (map trim (js_split CHR '','' s)))"
    by (cases s) (simp_all add: parsePhoneNumbers_def trim_def)
  moreover have "parsePhoneNumbers (Some (JStr '' +1555,, +1666 ,'')) = Inr [''+1555'', ''+1666'']"
    by (simp add: parsePhoneNumbers_def trim_def js_whitespace_def)
  moreover have "parsePhoneNumbers None = Inr []" "parsePhoneNumbers (Some JNull) = Inr []"
    "parsePhoneNumbers (Some (JStr [])) = Inr []" "parsePhoneNumbers (Some (JNum 0)) = Inr []"
    "parsePhoneNumbers (Some (JBool False)) = Inr []"
    by (simp_all add: parsePhoneNumbers_def)
  ultimately show ?thesis
    using js_split_join [of "CHR '',''" s] js_split_no_sep [of _ "CHR '',''" s]
      trim_decomp [of p] trim_ends [of p]
    by blast
qed

theorem parsePhoneNumbers_splits_trims_drops_witness:
  "parsePhoneNumbers (Some (JStr ''+1555 , ,+1666'')) = Inr [''+1555'', ''+1666'']
   \<and> js_split CHR '','' ''+1555 , ,+1666'' = [''+1555 '', '' '', ''+1666'']
   \<and> trim ''+1555 '' = ''+1555''
   \<and> \<not> js_whitespace (last (trim ''+1555 ''))"
  using parsePhoneNumbers_splits_trims_drops [of "''+1555 , ,+1666''" "''+1555 ''"]
  by (simp add: trim_def js_whitespace_def)

section \<open>The changelog keeps every entry in memory\<close>

lemma changelog_addToChangelog:
  "changelog (addToChangelog e act name det s) =
     changelog s @ [\<lparr>timestamp = logTime e, action = act, webhookName = name, details = det,
                     version = ''3.0.0''\<rparr>]"
  by (simp add: addToChangelog_def saveChangelog_def Let_def)

lemma length_slice_last: "length (slice_last n xs) \<le> n"
  by (simp add: slice_last_def)

text \<open>What is truncated is the file: after a successful write it holds the last 100 entries.\<close>

lemma changelogFile_addToChangelog:
  "writeOk e \<Longrightarrow>
   changelogFile (addToChangelog e act name det s) =
     slice_last 100 (changelog (addToChangelog e act name det s))"
  by (simp add: addToChangelog_def saveChangelog_def Let_def)

text \<open>The server without persistence does truncate the variable, oldest entry first.\<close>

lemma addToChangelog_v2_bound:
  "length (changelog (addToChangelog_v2 e act name det s)) \<le> 100"
  by (simp add: addToChangelog_v2_def Let_def slice_last_def)

lemma addToChangelog_v2_full:
  "length (changelog s) = 100 \<Longrightarrow>
   changelog (addToChangelog_v2 e act name det s) =
     tl (changelog s) @ [\<lparr>timestamp = logTime e, action = act, webhookName = name, details = det,
                          version = ''2.0.0''\<rparr>]"
  by (cases "changelog s") (simp_all add: addToChangelog_v2_def Let_def slice_last_def)

text \<open>
  C2. The claim is that after every append the changelog in memory has at most 100 entries.
  \<open>addToChangelog\<close> of the server with persistence makes the sequence one entry longer,
  whatever its length: appending to 100 entries leaves 101 in memory, where the variant
  without persistence leaves 100.
\<close>

theorem addToChangelog_keeps_every_entry:
  "length (changelog (addToChangelog e act name det s)) = Suc (length (changelog s)) \<and>
   length (changelog (addToChangelog env0 ''webhook_archived'' (JStr ''vip'') (JObj [])
      (initial\<lparr>changelog := replicate 100 entry0\<rparr>))) = 101 \<and>
   length (changelog (addToChangelog_v2 env0 ''webhook_archived'' (JStr ''vip'') (JObj [])
      (initial\<lparr>changelog := replicate 100 entry0\<rparr>))) = 100"
  by (simp add: changelog_addToChangelog addToChangelog_v2_def Let_def slice_last_def initial_def)

section \<open>The credential cache\<close>

text \<open>
  C5, as the code has it. With a cached token and \<open>now < expiry\<close>, \<open>getAccessToken\<close> returns
  the cached token and leaves the state as it is, so a second call in the validity window
  returns the same token and no exchange is counted. With no token, an empty token, no
  expiry, an invalid expiry or \<open>expiry \<le> now\<close>, it counts exactly one exchange; a failed
  exchange stores nothing, and a successful one stores the token and the expiry
  \<^verbatim>\<open>new Date(now + (L - 300) * 1000)\<close>, where the lifetime \<open>L\<close> is the declared
  \<^verbatim>\<open>expires_in\<close>, or 3600 when none or zero is declared. That date is the clock reading plus
  \<open>L - 300\<close> seconds when this instant is within the range of \<^verbatim>\<open>Date\<close>, and the invalid
  date beyond it.
\<close>

theorem getAccessToken_cache:
  "(accessToken s = Some tok \<and> tok \<noteq> [] \<and> tokenExpiry s = Some (Time expiry) \<and> nowCheck e < expiry \<and>
      nowCheck e' < expiry
    \<longrightarrow> getAccessToken e s = (Inr (Some tok), s)
      \<and> getAccessToken e' (snd (getAccessToken e s)) = (Inr (Some tok), s))
   \<and> (accessToken s = None \<or> accessToken s = Some [] \<or> tokenExpiry s = None
        \<or> tokenExpiry s = Some InvalidDate
        \<or> (tokenExpiry s = Some (Time expiry) \<and> expiry \<le> nowCheck e)
    \<longrightarrow> exchanges (snd (getAccessToken e s)) = Suc (exchanges s)
      \<and> (exchange e = Inl err \<longrightarrow>
            getAccessToken e s = (Inl err, s\<lparr>exchanges := Suc (exchanges s)\<rparr>))
      \<and> (exchange e = Inr r \<longrightarrow>
            getAccessToken e s =
              (Inr (access_token r),
               s\<lparr>accessToken := access_token r,
                 tokenExpiry := Some (new_date (nowStore e + (lifetime r - 300) * 1000)),
                 exchanges := Suc (exchanges s)\<rparr>)))
   \<and> (expires_in r = Some n \<and> n \<noteq> 0 \<longrightarrow> lifetime r = n)
   \<and> (expires_in r = None \<or> expires_in r = Some 0 \<longrightarrow> lifetime r = 3600)
   \<and> (\<bar>ms\<bar> \<le> 8640000000000000 \<longrightarrow> new_date ms = Time ms)
   \<and> (8640000000000000 < \<bar>ms\<bar> \<longrightarrow> new_date ms = InvalidDate)"
  by (auto simp: getAccessToken_def token_valid_def lifetime_def new_date_def Let_def
      split: option.splits sum.splits date.splits)

theorem getAccessToken_cache_witness:
  "getAccessToken env0 (initial\<lparr>accessToken := Some ''tok-0'', tokenExpiry := Some (Time 5000)\<rparr>) =
     (Inr (Some ''tok-0''), initial\<lparr>accessToken := Some ''tok-0'', tokenExpiry := Some (Time 5000)\<rparr>)
   \<and> getAccessToken env0 initial =
     (Inr (Some ''tok-1''),
      initial\<lparr>accessToken := Some ''tok-1'', tokenExpiry := Some (Time 3302000), exchanges := 1\<rparr>)"
  using getAccessToken_cache [of "initial\<lparr>accessToken := Some ''tok-0'', tokenExpiry := Some (Time 5000)\<rparr>"
      "''tok-0''" 5000 env0 env0 "Upstream []"
      "\<lparr>access_token = Some ''tok-1'', expires_in = Some 3600\<rparr>" 3600 3302000]
    getAccessToken_cache [of initial "''tok-0''" 5000 env0 env0 "Upstream []"
      "\<lparr>access_token = Some ''tok-1'', expires_in = Some 3600\<rparr>" 3600 3302000]
  by (simp add: initial_def env0_def)

text \<open>
  C5, as the claim has it, fails: when the issuer declares a lifetime of 0 the expiry is
  set 3300 seconds after the clock reading, not 300 seconds before it; and when it
  declares \<open>10^13\<close> seconds the expiry is the invalid date, under which no token is valid:
  the next call exchanges again.
\<close>

theorem getAccessToken_zero_or_huge_lifetime:
  "nowStore env0 = 2000
   \<and> tokenExpiry (snd (getAccessToken
        (env0\<lparr>exchange := Inr \<lparr>access_token = Some ''tok-1'', expires_in = Some 0\<rparr>\<rparr>) initial)) =
      Some (Time 3302000)
   \<and> tokenExpiry (snd (getAccessToken
        (env0\<lparr>exchange := Inr \<lparr>access_token = Some ''tok-1'', expires_in = Some 10000000000000\<rparr>\<rparr>)
        initial)) = Some InvalidDate
   \<and> exchanges (snd (getAccessToken env0 (snd (getAccessToken
        (env0\<lparr>exchange := Inr \<lparr>access_token = Some ''tok-1'', expires_in = Some 10000000000000\<rparr>\<rparr>)
        initial)))) = 2"
  by (simp add: getAccessToken_def token_valid_def lifetime_def new_date_def initial_def env0_def)

section \<open>Sending to an empty recipient list\<close>

text \<open>
  C4, as the code has it. \<open>sendSMS\<close> obtains the token first and tests the parsed list
  second. For recipients that parse to the empty list no message is handed to the provider.
  With a valid cached token the call fails with \<open>NoRecipients\<close> and the state is unchanged;
  otherwise exactly one token exchange is made, and the call fails with \<open>NoRecipients\<close> when
  the exchange succeeds and with the error of the exchange when it fails.
\<close>

theorem sendSMS_no_recipients:
  "parsePhoneNumbers recipients = Inr [] \<longrightarrow>
     sent (snd (sendSMS e message recipients s)) = sent s
     \<and> (token_valid e s \<longrightarrow> sendSMS e message recipients s = (Inl NoRecipients, s))
     \<and> (\<not> token_valid e s \<longrightarrow>
          exchanges (snd (sendSMS e message recipients s)) = Suc (exchanges s)
          \<and> fst (sendSMS e message recipients s) =
              (case exchange e of Inl err \<Rightarrow> Inl err | Inr response \<Rightarrow> Inl NoRecipients))"
  by (auto simp: sendSMS_def getAccessToken_def Let_def split: sum.splits prod.splits if_splits)

theorem sendSMS_no_recipients_witness:
  "parsePhoneNumbers (Some (JStr '' , '')) = Inr []
   \<and> sendSMS env0 ''hello'' (Some (JStr '' , ''))
        (initial\<lparr>accessToken := Some ''tok-0'', tokenExpiry := Some (Time 5000)\<rparr>) =
      (Inl NoRecipients, initial\<lparr>accessToken := Some ''tok-0'', tokenExpiry := Some (Time 5000)\<rparr>)
   \<and> fst (sendSMS env0 ''hello'' (Some (JStr '' , '')) initial) = Inl NoRecipients
   \<and> exchanges (snd (sendSMS env0 ''hello'' (Some (JStr '' , '')) initial)) = 1
   \<and> sent (snd (sendSMS env0 ''hello'' (Some (JStr '' , '')) initial)) = []"
  using sendSMS_no_recipients [of "Some (JStr '' , '')" env0 "''hello''"
      "initial\<lparr>accessToken := Some ''tok-0'', tokenExpiry := Some (Time 5000)\<rparr>"]
    sendSMS_no_recipients [of "Some (JStr '' , '')" env0 "''hello''" initial]
  by (simp add: initial_def env0_def parsePhoneNumbers_def trim_def js_whitespace_def token_valid_def)

text \<open>
  C4, as the claim has it, fails: on a server with no cached token, sending to the
  recipients \<^verbatim>\<open>" , "\<close> makes a token exchange before the empty list is noticed, and when
  that exchange fails the caller sees its error, not \<open>NoRecipients\<close>.
\<close>

theorem sendSMS_exchanges_before_check:
  "parsePhoneNumbers (Some (JStr '' , '')) = Inr []
   \<and> exchanges initial = 0
   \<and> exchanges (snd (sendSMS env0 ''hello'' (Some (JStr '' , '')) initial)) = 1
   \<and> fst (sendSMS (env0\<lparr>exchange := Inl (Upstream ''Request failed with status code 401'')\<rparr>)
             ''hello'' (Some (JStr '' , '')) initial)
      = Inl (Upstream ''Request failed with status code 401'')"
  by (simp add: initial_def env0_def parsePhoneNumbers_def trim_def js_whitespace_def token_valid_def
      sendSMS_def getAccessToken_def)

section \<open>Objects as association lists\<close>

lemma obj_keys_simps [simp]: "obj_keys [] = []" "obj_keys (kv # fs) = fst kv # obj_keys fs"
  by (simp_all add: obj_keys_def)

lemma obj_get_None: "obj_get fs k = None \<longleftrightarrow> k \<notin> set (obj_keys fs)"
  by (simp add: obj_get_def obj_keys_def map_of_eq_None_iff)

lemma obj_get_Some_key: "obj_get fs k = Some v \<Longrightarrow> k \<in> set (obj_keys fs)"
  using obj_get_None [of fs k] by auto

lemma keys_obj_insert: "set (obj_keys (obj_insert k v fs)) = insert k (set (obj_keys fs))"
  by (induction fs) auto

lemma obj_keys_update:
  "obj_keys (map (\<lambda>kv. if fst kv = k then (k, v) else kv) fs) = obj_keys fs"
  by (induction fs) auto

lemma keys_obj_set: "set (obj_keys (obj_set k v fs)) = insert k (set (obj_keys fs))"
  by (auto simp: obj_set_def keys_obj_insert obj_keys_update)

lemma keys_obj_delete: "set (obj_keys (obj_delete k fs)) = set (obj_keys fs) - {k}"
  by (auto simp: obj_keys_def obj_delete_def)

lemma obj_get_obj_insert:
  "k \<notin> set (obj_keys fs) \<Longrightarrow>
   obj_get (obj_insert k v fs) k' = (if k' = k then Some v else obj_get fs k')"
  by (induction fs) (auto simp: obj_get_def)

lemma obj_get_update:
  "obj_get (map (\<lambda>kv. if fst kv = k then (k, v) else kv) fs) k' =
     (if k' = k \<and> k \<in> set (obj_keys fs) then Some v else obj_get fs k')"
  by (induction fs) (auto simp: obj_get_def)

lemma obj_get_obj_set: "obj_get (obj_set k v fs) k' = (if k' = k then Some v else obj_get fs k')"
  by (simp add: obj_set_def obj_get_obj_insert obj_get_update)

lemma obj_get_obj_delete: "obj_get (obj_delete k fs) k' = (if k' = k then None else obj_get fs k')"
  by (induction fs) (auto simp: obj_get_def obj_delete_def)

lemma obj_delete_absent: "k \<notin> set (obj_keys fs) \<Longrightarrow> obj_delete k fs = fs"
  by (induction fs) (auto simp: obj_delete_def)

lemma obj_delete_obj_insert:
  "k \<notin> set (obj_keys fs) \<Longrightarrow> obj_delete k (obj_insert k v fs) = fs"
proof (induction fs)
  case Nil
  show ?case by (simp add: obj_delete_def)
next
  case (Cons kv fs)
  have "obj_delete k (kv # fs) = kv # fs"
    using Cons.prems by (rule obj_delete_absent)
  then show ?case using Cons by (auto simp: obj_delete_def)
qed

lemma obj_delete_update:
  "obj_delete k (map (\<lambda>kv. if fst kv = k then (k, v) else kv) fs) = obj_delete k fs"
  by (induction fs) (auto simp: obj_delete_def)

lemma obj_delete_obj_set: "obj_delete k (obj_set k v fs) = obj_delete k fs"
  by (simp add: obj_set_def obj_delete_update obj_delete_obj_insert obj_delete_absent)

lemma keys_fold_obj_set:
  "set (obj_keys (fold (\<lambda>kv acc. obj_set (fst kv) (snd kv) acc) b a)) =
     set (obj_keys a) \<union> set (obj_keys b)"
  by (induction b arbitrary: a) (simp_all add: keys_obj_set)

lemma keys_obj_merge: "set (obj_keys (obj_merge a b)) = set (obj_keys a) \<union> set (obj_keys b)"
  by (simp add: obj_merge_def keys_fold_obj_set)

lemma obj_merge_Nil: "obj_merge a [] = a"
  by (simp add: obj_merge_def)

lemma assign_Some: "k \<noteq> ''__proto__'' \<Longrightarrow> assign k v m = Some (obj_set k v m)"
  by (simp add: assign_def)

lemma assign_keys: "assign k v m = Some m' \<Longrightarrow> set (obj_keys m') = insert k (set (obj_keys m))"
  by (auto simp: assign_def keys_obj_set split: if_splits)

lemma map_get_Own: "obj_get m k = Some v \<Longrightarrow> map_get m k = Own v"
  by (simp add: map_get_def)

lemma map_get_Absent:
  "k \<notin> set (obj_keys m) \<Longrightarrow> k \<notin> set objectPrototypeKeys \<Longrightarrow> map_get m k = Absent"
  using obj_get_None [of m k] by (simp add: map_get_def)

lemma map_get_Inherited:
  "k \<notin> set (obj_keys m) \<Longrightarrow> k \<in> set objectPrototypeKeys \<Longrightarrow> map_get m k = Inherited"
  using obj_get_None [of m k] by (simp add: map_get_def)

lemma map_get_truthy_key:
  "truthy_found (map_get m k) \<Longrightarrow> k \<notin> set objectPrototypeKeys \<Longrightarrow> k \<in> set (obj_keys m)"
  using obj_get_None [of m k] by (auto simp: map_get_def split: option.splits)

lemma addToChangelog_maps [simp]:
  "notificationConfigs (addToChangelog e act name det s) = notificationConfigs s"
  "archivedWebhooks (addToChangelog e act name det s) = archivedWebhooks s"
  by (simp_all add: addToChangelog_def saveChangelog_def Let_def)

section \<open>The webhook for an unknown name\<close>

text \<open>
  C8. When the name is neither a key of the active map nor a property of
  \<^verbatim>\<open>Object.prototype\<close>, the webhook handler answers 404 with the names of the active map
  and returns the state as it was: no changelog entry, no message handed to the provider,
  no token exchange. For a name that the active map does not have but inherits, such as
  \<^verbatim>\<open>constructor\<close> or \<^verbatim>\<open>toString\<close>, the lookup \<^verbatim>\<open>notificationConfigs[type]\<close> finds the
  inherited property, the guard \<^verbatim>\<open>if (!config)\<close> lets it pass, and \<open>formatMessage\<close> fails
  on the missing template: the handler answers 500 with the \<open>TypeError\<close>, the state still as
  it was. So \<^verbatim>\<open>POST /sms-whook/constructor\<close> is answered with 500, not with 404.
\<close>

theorem postSmsWhook_unknown:
  "(name \<notin> set (obj_keys (notificationConfigs s)) \<and> name \<notin> set objectPrototypeKeys \<longrightarrow>
      postSmsWhook e name body queryMessage s =
        (Response 404 (JObj [(''error'', JStr ''Unknown notification type''),
                             (''available'', JArr (map JStr (obj_keys (notificationConfigs s))))]), s))
   \<and> (name \<notin> set (obj_keys (notificationConfigs s)) \<and> name \<in> set objectPrototypeKeys \<longrightarrow>
      postSmsWhook e name body queryMessage s = (Failure TypeError, s))
   \<and> postSmsWhook env0 ''constructor'' (JObj [(''callerNumber'', JStr ''+15551234567'')]) None
        (initial\<lparr>notificationConfigs := [(''vip'', vip)]\<rparr>) =
      (Failure TypeError, initial\<lparr>notificationConfigs := [(''vip'', vip)]\<rparr>)"
proof -
  have a: "postSmsWhook e name body queryMessage s = (unknownType s, s)"
    if "name \<notin> set (obj_keys (notificationConfigs s))" "name \<notin> set objectPrototypeKeys"
    for name s
    using map_get_Absent [OF that] by (simp add: postSmsWhook_def)
  have b: "postSmsWhook e name body queryMessage s = (Failure TypeError, s)"
    if "name \<notin> set (obj_keys (notificationConfigs s))" "name \<in> set objectPrototypeKeys"
    for name s e body queryMessage
    using map_get_Inherited [OF that]
    by (simp add: postSmsWhook_def triggered_def formatMessage_def)
  have c: "postSmsWhook env0 ''constructor'' (JObj [(''callerNumber'', JStr ''+15551234567'')]) None
        (initial\<lparr>notificationConfigs := [(''vip'', vip)]\<rparr>) =
      (Failure TypeError, initial\<lparr>notificationConfigs := [(''vip'', vip)]\<rparr>)"
    by (rule b) (simp_all add: initial_def objectPrototypeKeys_def)
  show ?thesis using a b c by (simp add: unknownType_def)
qed

theorem postSmsWhook_unknown_witness:
  "''unknown-name'' \<notin> set (obj_keys [(''vip'', vip)])
   \<and> ''unknown-name'' \<notin> set objectPrototypeKeys
   \<and> ''toString'' \<in> set objectPrototypeKeys
   \<and> postSmsWhook env0 ''unknown-name'' (JObj [(''callerNumber'', JStr ''+15551234567'')]) None
       (initial\<lparr>notificationConfigs := [(''vip'', vip)]\<rparr>) =
     (Response 404 (JObj [(''error'', JStr ''Unknown notification type''),
                          (''available'', JArr [JStr ''vip''])]),
      initial\<lparr>notificationConfigs := [(''vip'', vip)]\<rparr>)
   \<and> postSmsWhook env0 ''toString'' (JObj []) None
       (initial\<lparr>notificationConfigs := [(''vip'', vip)]\<rparr>) =
     (Failure TypeError, initial\<lparr>notificationConfigs := [(''vip'', vip)]\<rparr>)"
  using postSmsWhook_unknown [of "''unknown-name''" "initial\<lparr>notificationConfigs := [(''vip'', vip)]\<rparr>"
      env0 "JObj [(''callerNumber'', JStr ''+15551234567'')]" None]
    postSmsWhook_unknown [of "''toString''" "initial\<lparr>notificationConfigs := [(''vip'', vip)]\<rparr>"
      env0 "JObj []" None]
  by (simp add: initial_def objectPrototypeKeys_def)

section \<open>Archive, then restore\<close>

text \<open>
  C6, as the code has it. For a truthy config in the active map, under a name other than
  \<^verbatim>\<open>__proto__\<close>, archive followed by restore succeeds twice; the archived copy is the
  spread of the config with \<^verbatim>\<open>archivedAt\<close>; the restored config is the spread of the
  config without an \<^verbatim>\<open>archivedAt\<close> property, hence, for a config that is an object, equal
  to it, property for property, when it had none; the name is no longer in the archived
  map, and every other name of both maps is as before.
\<close>

theorem archive_then_restore:
  "obj_get (notificationConfigs s) name = Some v \<and> truthy v \<and> name \<noteq> ''__proto__'' \<longrightarrow>
   (\<exists>s1 s2.
       postArchive e1 name s = Some (Response 200 (successBody ''Webhook archived''), s1)
     \<and> obj_get (archivedWebhooks s1) name =
         Some (JObj (obj_set ''archivedAt'' (JStr (isoTime e1)) (spread v)))
     \<and> name \<notin> set (obj_keys (notificationConfigs s1))
     \<and> postRestore e2 name s1 = Some (Response 200 (successBody ''Webhook restored''), s2)
     \<and> obj_get (notificationConfigs s2) name = Some (JObj (obj_delete ''archivedAt'' (spread v)))
     \<and> ''archivedAt'' \<notin> set (obj_keys (obj_delete ''archivedAt'' (spread v)))
     \<and> (\<forall>props. v = JObj props \<and> ''archivedAt'' \<notin> set (obj_keys props) \<longrightarrow>
          obj_get (notificationConfigs s2) name = Some v)
     \<and> name \<notin> set (obj_keys (archivedWebhooks s2))
     \<and> (\<forall>k. k \<noteq> name \<longrightarrow>
          obj_get (notificationConfigs s2) k = obj_get (notificationConfigs s) k
          \<and> obj_get (archivedWebhooks s2) k = obj_get (archivedWebhooks s) k))"
proof
  assume h: "obj_get (notificationConfigs s) name = Some v \<and> truthy v \<and> name \<noteq> ''__proto__''"
  then have a: "map_get (notificationConfigs s) name = Own v"
    and t: "truthy v" and n: "name \<noteq> ''__proto__''"
    by (simp_all add: map_get_Own)
  let ?arch = "JObj (obj_set ''archivedAt'' (JStr (isoTime e1)) (spread v))"
  let ?rest = "JObj (obj_delete ''archivedAt'' (spread v))"
  define s1 where "s1 = addToChangelog e1 ''webhook_archived'' (JStr name) (JObj [])
      (s\<lparr>archivedWebhooks := obj_set name ?arch (archivedWebhooks s),
         notificationConfigs := obj_delete name (notificationConfigs s)\<rparr>)"
  have r1: "postArchive e1 name s = Some (Response 200 (successBody ''Webhook archived''), s1)"
    using a t n by (simp add: postArchive_def Let_def assign_Some s1_def)
  have act1: "notificationConfigs s1 = obj_delete name (notificationConfigs s)"
    by (simp add: s1_def)
  have arc1: "archivedWebhooks s1 = obj_set name ?arch (archivedWebhooks s)"
    by (simp add: s1_def)
  have g1: "obj_get (archivedWebhooks s1) name = Some ?arch"
    by (simp add: arc1 obj_get_obj_set)
  then have m1: "map_get (archivedWebhooks s1) name = Own ?arch"
    by (rule map_get_Own)
  define s2 where "s2 = addToChangelog e2 ''webhook_restored'' (JStr name) (JObj [])
      (s1\<lparr>notificationConfigs := obj_set name ?rest (notificationConfigs s1),
          archivedWebhooks := obj_delete name (archivedWebhooks s1)\<rparr>)"
  have r2: "postRestore e2 name s1 = Some (Response 200 (successBody ''Webhook restored''), s2)"
    using m1 n by (simp add: postRestore_def Let_def assign_Some s2_def obj_delete_obj_set)
  have act2: "notificationConfigs s2 = obj_set name ?rest (obj_delete name (notificationConfigs s))"
    by (simp add: s2_def act1)
  have arc2: "archivedWebhooks s2 = obj_delete name (archivedWebhooks s)"
    by (simp add: s2_def arc1 obj_delete_obj_set)
  have g2: "obj_get (notificationConfigs s2) name = Some ?rest"
    by (simp add: act2 obj_get_obj_set)
  have same: "obj_get (notificationConfigs s2) name = Some v"
    if "v = JObj props" "''archivedAt'' \<notin> set (obj_keys props)" for props
    using that g2 by (simp add: obj_delete_absent)
  have rest: "''archivedAt'' \<notin> set (obj_keys (obj_delete ''archivedAt'' (spread v)))
     \<and> name \<notin> set (obj_keys (archivedWebhooks s2))
     \<and> (\<forall>k. k \<noteq> name \<longrightarrow>
          obj_get (notificationConfigs s2) k = obj_get (notificationConfigs s) k
          \<and> obj_get (archivedWebhooks s2) k = obj_get (archivedWebhooks s) k)"
    by (simp add: act2 arc2 keys_obj_delete obj_get_obj_set obj_get_obj_delete)
  have k1: "name \<notin> set (obj_keys (notificationConfigs s1))"
    by (simp add: act1 keys_obj_delete)
  show "\<exists>s1 s2.
       postArchive e1 name s = Some (Response 200 (successBody ''Webhook archived''), s1)
     \<and> obj_get (archivedWebhooks s1) name =
         Some (JObj (obj_set ''archivedAt'' (JStr (isoTime e1)) (spread v)))
     \<and> name \<notin> set (obj_keys (notificationConfigs s1))
     \<and> postRestore e2 name s1 = Some (Response 200 (successBody ''Webhook restored''), s2)
     \<and> obj_get (notificationConfigs s2) name = Some (JObj (obj_delete ''archivedAt'' (spread v)))
     \<and> ''archivedAt'' \<notin> set (obj_keys (obj_delete ''archivedAt'' (spread v)))
     \<and> (\<forall>props. v = JObj props \<and> ''archivedAt'' \<notin> set (obj_keys props) \<longrightarrow>
          obj_get (notificationConfigs s2) name = Some v)
     \<and> name \<notin> set (obj_keys (archivedWebhooks s2))
     \<and> (\<forall>k. k \<noteq> name \<longrightarrow>
          obj_get (notificationConfigs s2) k = obj_get (notificationConfigs s) k
          \<and> obj_get (archivedWebhooks s2) k = obj_get (archivedWebhooks s) k)"
    using r1 g1 k1 r2 g2 same rest by blast
qed

theorem archive_then_restore_witness:
  "obj_get (notificationConfigs (initial\<lparr>notificationConfigs := [(''vip'', vip)]\<rparr>)) ''vip'' = Some vip
   \<and> truthy vip
   \<and> active_after [(env0, PostArchive ''vip''), (env0, PostRestore ''vip'')]
        (initial\<lparr>notificationConfigs := [(''vip'', vip)]\<rparr>) ''vip'' = Some vip"
proof -
  let ?s = "initial\<lparr>notificationConfigs := [(''vip'', vip)]\<rparr>"
  obtain props where v: "vip = JObj props" and n: "''archivedAt'' \<notin> set (obj_keys props)"
    by (simp add: vip_def)
  have p: "obj_get (notificationConfigs ?s) ''vip'' = Some vip"
    by (simp add: obj_get_def)
  have t: "truthy vip" by (simp add: v)
  have q: "''vip'' \<noteq> ''__proto__''" by simp
  obtain s1 s2 where
    "postArchive env0 ''vip'' ?s = Some (Response 200 (successBody ''Webhook archived''), s1)"
    "postRestore env0 ''vip'' s1 = Some (Response 200 (successBody ''Webhook restored''), s2)"
    "obj_get (notificationConfigs s2) ''vip'' = Some vip"
    using archive_then_restore [of ?s "''vip''" vip env0 env0] p t q v n by blast
  then have "active_after [(env0, PostArchive ''vip''), (env0, PostRestore ''vip'')] ?s ''vip'' =
      Some vip"
    by (simp add: active_after_def)
  then show ?thesis using p t by simp
qed

text \<open>
  C6, as the claim has it, fails for a config that is not an object, which a create
  accepts: the string \<^verbatim>\<open>"abc"\<close> is archived as the spread of its characters and comes back
  as the object \<^verbatim>\<open>{"0": "a", "1": "b", "2": "c"}\<close>.
\<close>

theorem archive_restore_changes_string_config:
  "active_after [(env0, PostWebhooks (JObj [(''name'', JStr ''note''), (''config'', JStr ''abc'')]))]
      initial ''note'' = Some (JStr ''abc'')
   \<and> active_after [(env0, PostWebhooks (JObj [(''name'', JStr ''note''), (''config'', JStr ''abc'')])),
                   (env0, PostArchive ''note''), (env0, PostRestore ''note'')]
      initial ''note'' =
     Some (JObj [(''0'', JStr ''a''), (''1'', JStr ''b''), (''2'', JStr ''c'')])"
proof -
  let ?c = "PostWebhooks (JObj [(''name'', JStr ''note''), (''config'', JStr ''abc'')])"
  define s0 where "s0 = addToChangelog env0 ''webhook_created'' (JStr ''note'') (JStr ''abc'')
      (initial\<lparr>notificationConfigs := [(''note'', JStr ''abc'')]\<rparr>)"
  have c: "handle env0 ?c initial = Some (Response 200 (successBody ''Webhook created''), s0)"
    by (simp add: postWebhooks_def obj_get_def assign_def obj_set_def initial_def s0_def)
  have a0: "notificationConfigs s0 = [(''note'', JStr ''abc'')]"
    and r0: "archivedWebhooks s0 = []"
    by (simp_all add: s0_def initial_def)
  let ?arch = "JObj (obj_set ''archivedAt'' (JStr (isoTime env0)) (spread (JStr ''abc'')))"
  define s1 where "s1 = addToChangelog env0 ''webhook_archived'' (JStr ''note'') (JObj [])
      (s0\<lparr>archivedWebhooks := [(''note'', ?arch)], notificationConfigs := []\<rparr>)"
  have a: "handle env0 (PostArchive ''note'') s0 = Some (Response 200 (successBody ''Webhook archived''), s1)"
    by (simp add: postArchive_def map_get_def obj_get_def a0 r0 assign_def obj_set_def
        obj_delete_def Let_def s1_def)
  have a1: "notificationConfigs s1 = []" and r1: "archivedWebhooks s1 = [(''note'', ?arch)]"
    by (simp_all add: s1_def)
  define s2 where "s2 = addToChangelog env0 ''webhook_restored'' (JStr ''note'') (JObj [])
      (s1\<lparr>notificationConfigs :=
            [(''note'', JObj [(''0'', JStr ''a''), (''1'', JStr ''b''), (''2'', JStr ''c'')])],
          archivedWebhooks := []\<rparr>)"
  have r: "handle env0 (PostRestore ''note'') s1 = Some (Response 200 (successBody ''Webhook restored''), s2)"
    by (simp add: postRestore_def map_get_def obj_get_def a1 r1 assign_def Let_def s2_def
        obj_delete_obj_set digit_char_def)
       (simp add: obj_set_def obj_delete_def)
  have 1: "active_after [(env0, ?c)] initial ''note'' = Some (JStr ''abc'')"
    using c by (simp add: active_after_def a0 obj_get_def)
  have 2: "active_after [(env0, ?c), (env0, PostArchive ''note''), (env0, PostRestore ''note'')]
      initial ''note'' = Some (JObj [(''0'', JStr ''a''), (''1'', JStr ''b''), (''2'', JStr ''c'')])"
    using c a r by (simp add: active_after_def s2_def obj_get_def)
  show ?thesis using 1 2 by simp
qed

section \<open>The two maps stay disjoint, unless a create or an import reuses a name\<close>

lemma imported_falsy: "\<not> truthy_opt v \<Longrightarrow> imported v = []"
  by (cases v) (auto simp: imported_def)

lemma postImport_maps:
  "notificationConfigs (snd (postImport e body s)) =
     obj_merge (notificationConfigs s) (imported (js_get body ''webhooks''))"
  "archivedWebhooks (snd (postImport e body s)) =
     obj_merge (archivedWebhooks s) (imported (js_get body ''archived''))"
  by (auto simp: postImport_def Let_def imported_falsy obj_merge_Nil)

lemma handle_modelled: "admissible s r \<Longrightarrow> \<exists>rs1. handle e r s = Some rs1"
proof (cases r)
  case (PostWebhooks body)
  assume "admissible s r"
  then show ?thesis using PostWebhooks
    by (auto simp: postWebhooks_def assign_def split: option.splits json.splits)
next
  case (PutWebhook name config)
  assume "admissible s r"
  then have "name \<noteq> ''__proto__''" using PutWebhook by (auto simp: objectPrototypeKeys_def)
  then show ?thesis using PutWebhook by (simp add: putWebhook_def Let_def assign_Some)
next
  case (PostArchive name)
  assume "admissible s r"
  then show ?thesis using PostArchive by (simp add: postArchive_def Let_def assign_Some)
next
  case (PostRestore name)
  assume "admissible s r"
  then show ?thesis using PostRestore by (simp add: postRestore_def Let_def assign_Some)
next
  case (PostImport body)
  then show ?thesis by simp
qed

lemma handle_disjoint:
  assumes "disjoint_maps s" "admissible s r" "handle e r s = Some (resp, s')"
  shows "disjoint_maps s'"
proof (cases r)
  case (PostWebhooks body)
  then show ?thesis using assms
    by (auto simp: disjoint_maps_def postWebhooks_def Let_def assign_def keys_obj_set
        split: option.splits json.splits if_splits)
next
  case (PutWebhook name config)
  show ?thesis
  proof (cases "truthy_found (map_get (notificationConfigs s) name)")
    case True
    have n: "name \<notin> set objectPrototypeKeys" using assms(2) PutWebhook by simp
    then have k: "name \<in> set (obj_keys (notificationConfigs s))"
      using True map_get_truthy_key by blast
    have "name \<noteq> ''__proto__''" using n by (auto simp: objectPrototypeKeys_def)
    then have "set (obj_keys (notificationConfigs s')) = insert name (set (obj_keys (notificationConfigs s)))"
      and "archivedWebhooks s' = archivedWebhooks s"
      using assms(3) PutWebhook True
      by (auto simp: putWebhook_def Let_def assign_Some keys_obj_set)
    then show ?thesis using assms(1) k by (auto simp: disjoint_maps_def)
  next
    case False
    then have "s' = s" using assms(3) PutWebhook by (simp add: putWebhook_def Let_def)
    then show ?thesis using assms(1) by simp
  qed
next
  case (PostArchive name)
  then show ?thesis using assms
    by (auto simp: disjoint_maps_def postArchive_def Let_def assign_def keys_obj_set keys_obj_delete
        split: option.splits if_splits)
next
  case (PostRestore name)
  then show ?thesis using assms
    by (auto simp: disjoint_maps_def postRestore_def Let_def assign_def keys_obj_set keys_obj_delete
        split: option.splits if_splits)
next
  case (PostImport body)
  then have "s' = snd (postImport e body s)" using assms(3) by auto
  then show ?thesis using assms(1,2) PostImport
    by (auto simp: disjoint_maps_def postImport_maps keys_obj_merge Let_def)
qed

lemma lifecycle_admissible: "lifecycle r \<Longrightarrow> admissible s r"
  by (cases r) auto

lemma lifecycle_admissible_run:
  "list_all (\<lambda>er. lifecycle (snd er)) rs \<Longrightarrow> admissible_run s rs"
proof (induction rs arbitrary: s)
  case Nil
  show ?case by simp
next
  case (Cons er rs)
  then have a: "admissible s (snd er)" by (simp add: lifecycle_admissible)
  then obtain rs1 where "handle (fst er) (snd er) s = Some rs1"
    using handle_modelled by blast
  then show ?case using a Cons by simp
qed

lemma run_disjoint:
  "disjoint_maps s \<Longrightarrow> admissible_run s rs \<Longrightarrow> \<exists>s'. run rs s = Some s' \<and> disjoint_maps s'"
proof (induction rs arbitrary: s)
  case Nil
  then show ?case by simp
next
  case (Cons er rs)
  then obtain resp s1 where h: "handle (fst er) (snd er) s = Some (resp, s1)"
    by (auto split: option.splits)
  then have "disjoint_maps s1" using Cons.prems handle_disjoint by auto
  moreover have "admissible_run s1 rs" using Cons.prems h by simp
  ultimately show ?case using Cons.IH h by simp
qed

lemma archive_vip:
  "handle env0 (PostArchive ''vip'') (initial\<lparr>notificationConfigs := [(''vip'', vip)]\<rparr>) =
     Some (Response 200 (successBody ''Webhook archived''),
           addToChangelog env0 ''webhook_archived'' (JStr ''vip'') (JObj [])
             (initial\<lparr>notificationConfigs := [],
                archivedWebhooks :=
                  [(''vip'', JObj (obj_set ''archivedAt'' (JStr (isoTime env0)) (spread vip)))]\<rparr>))"
  by (simp add: postArchive_def map_get_def obj_get_def assign_def obj_set_def obj_delete_def
      Let_def initial_def vip_def)

text \<open>
  C1, as the code has it. From disjoint maps, every sequence of updates of names that
  \<^verbatim>\<open>Object.prototype\<close> does not have and of archives and restores of names other than
  \<^verbatim>\<open>__proto__\<close> runs to the end and leaves the maps disjoint, and so does every sequence of
  requests in which, besides, each create has no truthy name or a string name, other than
  \<^verbatim>\<open>__proto__\<close>, that is not archived at that moment, and each import brings active names
  that are archived neither in the store nor in the import, and archived names that are
  not active in the store.
\<close>

theorem disjoint_maps_preserved:
  "disjoint_maps s \<and> (admissible_run s rs \<or> list_all (\<lambda>er. lifecycle (snd er)) rs)
   \<longrightarrow> (\<exists>s'. run rs s = Some s' \<and> disjoint_maps s')"
  using run_disjoint lifecycle_admissible_run by blast

theorem disjoint_maps_preserved_witness:
  "disjoint_maps (initial\<lparr>notificationConfigs := [(''vip'', vip)]\<rparr>)
   \<and> admissible_run (initial\<lparr>notificationConfigs := [(''vip'', vip)]\<rparr>)
        [(env0, PostArchive ''vip''),
         (env0, PostWebhooks (JObj [(''name'', JStr ''sales''), (''config'', vip)])),
         (env0, PostRestore ''vip'')]
   \<and> disjoint_after [(env0, PostArchive ''vip''),
         (env0, PostWebhooks (JObj [(''name'', JStr ''sales''), (''config'', vip)])),
         (env0, PostRestore ''vip'')] (initial\<lparr>notificationConfigs := [(''vip'', vip)]\<rparr>) = Some True"
proof -
  let ?s = "initial\<lparr>notificationConfigs := [(''vip'', vip)]\<rparr>"
  let ?c = "PostWebhooks (JObj [(''name'', JStr ''sales''), (''config'', vip)])"
  let ?rs = "[(env0, PostArchive ''vip''), (env0, ?c), (env0, PostRestore ''vip'')]"
  have d: "disjoint_maps ?s"
    by (simp add: disjoint_maps_def initial_def)
  obtain s1 where h1: "handle env0 (PostArchive ''vip'') ?s = Some (Response 200 (successBody ''Webhook archived''), s1)"
    and k1: "obj_keys (archivedWebhooks s1) = [''vip'']"
    using archive_vip by (simp add: initial_def)
  have a2: "admissible s1 ?c"
    by (simp add: obj_get_def k1)
  then obtain rs2 where h2: "handle env0 ?c s1 = Some rs2"
    using handle_modelled by blast
  have a3: "admissible (snd rs2) (PostRestore ''vip'')" by simp
  then obtain rs3 where h3: "handle env0 (PostRestore ''vip'') (snd rs2) = Some rs3"
    using handle_modelled by blast
  have a: "admissible_run ?s ?rs"
    using h1 h2 h3 a2 by simp
  then obtain s' where "run ?rs ?s = Some s'" "disjoint_maps s'"
    using d disjoint_maps_preserved [of ?s ?rs] by blast
  then have "disjoint_after ?rs ?s = Some True"
    by (simp add: disjoint_after_def)
  then show ?thesis using d a by blast
qed

text \<open>
  C1, as the claim has it, fails: after \<^verbatim>\<open>vip\<close> has been archived, creating a config
  named \<^verbatim>\<open>vip\<close>, or importing one, leaves the name in both maps.
\<close>

theorem create_breaks_disjointness:
  "disjoint_maps (initial\<lparr>notificationConfigs := [(''vip'', vip)]\<rparr>)
   \<and> disjoint_after [(env0, PostArchive ''vip'')] (initial\<lparr>notificationConfigs := [(''vip'', vip)]\<rparr>)
       = Some True
   \<and> disjoint_after
        [(env0, PostArchive ''vip''),
         (env0, PostWebhooks (JObj [(''name'', JStr ''vip''), (''config'', vip)]))]
        (initial\<lparr>notificationConfigs := [(''vip'', vip)]\<rparr>) = Some False
   \<and> disjoint_after
        [(env0, PostArchive ''vip''),
         (env0, PostImport (JObj [(''webhooks'', JObj [(''vip'', vip)])]))]
        (initial\<lparr>notificationConfigs := [(''vip'', vip)]\<rparr>) = Some False"
proof -
  let ?s = "initial\<lparr>notificationConfigs := [(''vip'', vip)]\<rparr>"
  have d: "disjoint_maps ?s"
    by (simp add: disjoint_maps_def initial_def)
  obtain s1 where h1: "handle env0 (PostArchive ''vip'') ?s = Some (Response 200 (successBody ''Webhook archived''), s1)"
    and k1: "obj_keys (archivedWebhooks s1) = [''vip'']" and a1: "notificationConfigs s1 = []"
    using archive_vip by (simp add: initial_def)
  have 1: "disjoint_after [(env0, PostArchive ''vip'')] ?s = Some True"
    using h1 k1 a1 by (simp add: disjoint_after_def disjoint_maps_def)
  have "truthy vip" by (simp add: vip_def)
  then have 2: "disjoint_after [(env0, PostArchive ''vip''),
         (env0, PostWebhooks (JObj [(''name'', JStr ''vip''), (''config'', vip)]))] ?s = Some False"
    using h1 k1 a1
    by (simp add: disjoint_after_def disjoint_maps_def postWebhooks_def obj_get_def assign_def
        keys_obj_set)
  have "set (obj_keys (notificationConfigs (snd (postImport env0
      (JObj [(''webhooks'', JObj [(''vip'', vip)])]) s1)))) = {''vip''}"
    by (simp add: postImport_maps keys_obj_merge a1 imported_def obj_get_def)
  moreover have "archivedWebhooks (snd (postImport env0
      (JObj [(''webhooks'', JObj [(''vip'', vip)])]) s1)) = archivedWebhooks s1"
    by (simp add: postImport_maps imported_def obj_get_def obj_merge_Nil)
  ultimately have 3: "disjoint_after [(env0, PostArchive ''vip''),
         (env0, PostImport (JObj [(''webhooks'', JObj [(''vip'', vip)])]))] ?s = Some False"
    using h1 k1 by (simp add: disjoint_after_def disjoint_maps_def)
  show ?thesis using d 1 2 3 by simp
qed

text \<open>
  The guard of an update, \<^verbatim>\<open>if (notificationConfigs[name])\<close>, also passes for a name that
  the active map only inherits: after an archive of \<^verbatim>\<open>constructor\<close>, which stores an
  archived entry of that name, an update of \<^verbatim>\<open>constructor\<close> makes it an own key of the
  active map as well.
\<close>

lemma update_of_inherited_name:
  "disjoint_after [(env0, PostArchive ''constructor''), (env0, PutWebhook ''constructor'' (JObj []))]
     initial = Some False"
proof -
  define s1 where "s1 = addToChangelog env0 ''webhook_archived'' (JStr ''constructor'') (JObj [])
      (initial\<lparr>archivedWebhooks := [(''constructor'', JObj [(''archivedAt'', JStr (isoTime env0))])]\<rparr>)"
  have h1: "handle env0 (PostArchive ''constructor'') initial =
      Some (Response 200 (successBody ''Webhook archived''), s1)"
    by (simp add: postArchive_def map_get_def obj_get_def assign_def obj_set_def obj_delete_def
        Let_def initial_def objectPrototypeKeys_def s1_def)
  have a1: "notificationConfigs s1 = []"
    and k1: "archivedWebhooks s1 = [(''constructor'', JObj [(''archivedAt'', JStr (isoTime env0))])]"
    by (simp_all add: s1_def initial_def)
  show ?thesis
    using h1
    by (simp add: disjoint_after_def disjoint_maps_def putWebhook_def map_get_def obj_get_def a1 k1
        assign_def keys_obj_set objectPrototypeKeys_def Let_def)
qed

section \<open>Rendering replaces the first occurrence only\<close>

text \<open>\<open>formatMessage\<close> applies the eight substitutions in order.\<close>

lemma formatMessage_fold:
  "formatMessage tm dt (Some (JStr t)) data =
     Inr (fold (\<lambda>pr msg. js_replace (fst pr) (snd pr) msg) (replacements tm dt data) t)"
  by (simp add: formatMessage_def replacements_def Let_def)

lemma keys_replacements: "map fst (replacements tm dt data) = placeholders"
  by (simp add: replacements_def placeholders_def)

lemma distinct_placeholders: "distinct placeholders"
  by (simp add: placeholders_def)

text \<open>
  A placeholder opens with a brace and has no other opening brace; it closes with a brace
  and has no other closing brace. So no placeholder starts inside another one, and two
  different placeholders never match at the same place.
\<close>

lemma placeholder_shape:
  "tok \<in> set placeholders \<Longrightarrow> \<exists>t. tok = CHR ''{'' # t \<and> CHR ''{'' \<notin> set t"
  by (auto simp: placeholders_def)

lemma placeholder_closing:
  "tok \<in> set placeholders \<Longrightarrow>
   tok = butlast tok @ [CHR ''}''] \<and> CHR ''}'' \<notin> set (butlast tok)"
  by (auto simp: placeholders_def)

lemma closing_unique:
  assumes "c \<notin> set x" "c \<notin> set y" "prefix (x @ [c]) ((y @ [c]) @ r)"
  shows "x = y"
proof -
  obtain z where "(x @ [c]) @ z = (y @ [c]) @ r"
    using assms(3) by (auto simp: prefix_def)
  then have "x @ c # z = y @ c # r" by simp
  then show ?thesis
    using assms(1,2) by (auto simp: append_eq_append_conv2 append_eq_Cons_conv Cons_eq_append_conv)
qed

lemma placeholder_no_prefix:
  assumes "pat \<in> set placeholders" "tok \<in> set placeholders" "pat \<noteq> tok"
  shows "\<not> prefix pat (tok @ r)"
proof
  assume pre: "prefix pat (tok @ r)"
  have p: "pat = butlast pat @ [CHR ''}'']" "CHR ''}'' \<notin> set (butlast pat)"
    using placeholder_closing [OF assms(1)] by simp_all
  have t: "tok = butlast tok @ [CHR ''}'']" "CHR ''}'' \<notin> set (butlast tok)"
    using placeholder_closing [OF assms(2)] by simp_all
  have "prefix (butlast pat @ [CHR ''}'']) ((butlast tok @ [CHR ''}'']) @ r)"
    using pre p(1) t(1) by simp
  then have "butlast pat = butlast tok"
    using closing_unique [OF p(2) t(2)] by blast
  then show False using p(1) t(1) assms(3) by metis
qed

text \<open>Searching behind a text that lacks the first character of the pattern.\<close>

lemma index_of_skip:
  "c \<notin> set a \<Longrightarrow>
   index_of (c # p) (a @ s) =
     (case index_of (c # p) s of None \<Rightarrow> None | Some i \<Rightarrow> Some (length a + i))"
  by (induction a) (auto split: option.splits)

lemma get_substitution_plain:
  "CHR ''$'' \<notin> set v \<Longrightarrow> get_substitution m b a v = v"
  by (induction m b a v rule: get_substitution.induct) auto

text \<open>
  One \<^verbatim>\<open>replace\<close>: the occurrence found is the first one, and the text after it, other
  occurrences included, is copied as it is.
\<close>

lemma js_replace_first:
  "c \<notin> set a \<Longrightarrow> CHR ''$'' \<notin> set v \<Longrightarrow> js_replace (c # p) v (a @ (c # p) @ r) = a @ v @ r"
  by (simp add: js_replace_def index_of_skip get_substitution_plain Let_def)

lemma js_replace_none: "index_of pat s = None \<Longrightarrow> js_replace pat v s = s"
  by (simp add: js_replace_def)

lemma index_of_occurrences:
  assumes "\<forall>b \<in> set bs. c \<notin> set b" "c \<notin> set t" "\<And>r. \<not> prefix (c # p) ((c # t) @ r)"
  shows "index_of (c # p) (concat (map (\<lambda>b. (c # t) @ b) bs)) = None"
  using assms(1)
proof (induction bs)
  case Nil
  show ?case by simp
next
  case (Cons b bs)
  let ?rest = "concat (map (\<lambda>b. (c # t) @ b) bs)"
  have np: "\<not> prefix (c # p) ((c # t) @ b @ ?rest)" using assms(3) by blast
  have tb: "c \<notin> set (t @ b)" using assms(2) Cons.prems by simp
  have "index_of (c # p) ?rest = None" using Cons by simp
  then have "index_of (c # p) ((t @ b) @ ?rest) = None"
    using index_of_skip [OF tb, of p ?rest] by simp
  then show ?case using np by simp
qed

lemma fold_replace_none:
  "\<forall>pr \<in> set ps. index_of (fst pr) s = None \<Longrightarrow>
   fold (\<lambda>pr msg. js_replace (fst pr) (snd pr) msg) ps s = s"
  by (induction ps) (simp_all add: js_replace_none)

text \<open>
  In a text whose only opening braces are those of the occurrences of one placeholder, no
  other placeholder occurs.
\<close>

lemma other_placeholder_absent:
  assumes pat: "pat \<in> set placeholders" and tok: "tok \<in> set placeholders" and ne: "pat \<noteq> tok"
    and a: "CHR ''{'' \<notin> set a" and bs: "\<forall>b \<in> set bs. CHR ''{'' \<notin> set b"
  shows "index_of pat (a @ concat (map (\<lambda>b. tok @ b) bs)) = None"
proof -
  obtain p where p: "pat = CHR ''{'' # p" using placeholder_shape [OF pat] by blast
  obtain t where t: "tok = CHR ''{'' # t" "CHR ''{'' \<notin> set t" using placeholder_shape [OF tok] by blast
  have "\<And>r. \<not> prefix (CHR ''{'' # p) ((CHR ''{'' # t) @ r)"
    using placeholder_no_prefix [OF pat tok ne] p t(1) by simp
  then have "index_of (CHR ''{'' # p) (concat (map (\<lambda>b. (CHR ''{'' # t) @ b) bs)) = None"
    using index_of_occurrences [OF bs t(2)] by blast
  then show ?thesis
    using a by (simp add: p t(1) index_of_skip)
qed

text \<open>
  The template \<open>a tok b tok b\<^sub>1 \<dots> tok b\<^sub>n\<close>, where \<open>tok\<close> is a placeholder with replacement
  \<open>v\<close> and neither \<open>a\<close>, \<open>b\<close>, the \<open>b\<^sub>i\<close> nor \<open>v\<close> hold an opening brace (nor \<open>v\<close> a dollar sign),
  renders as \<open>a v b tok b\<^sub>1 \<dots> tok b\<^sub>n\<close>.
\<close>

lemma render_occurrences:
  assumes tv: "(tok, v) \<in> set (replacements tm dt data)"
    and a: "CHR ''{'' \<notin> set a" and b: "CHR ''{'' \<notin> set b" and bs: "\<forall>b \<in> set bs. CHR ''{'' \<notin> set b"
    and v: "CHR ''{'' \<notin> set v" "CHR ''$'' \<notin> set v"
  shows "formatMessage tm dt (Some (JStr (a @ tok @ b @ concat (map (\<lambda>b. tok @ b) bs)))) data =
           Inr (a @ v @ b @ concat (map (\<lambda>b. tok @ b) bs))"
proof -
  let ?reps = "replacements tm dt data"
  let ?step = "\<lambda>pr msg. js_replace (fst pr) (snd pr) msg"
  let ?tail = "concat (map (\<lambda>b. tok @ b) bs)"
  have d: "distinct (map fst ?reps)"
    by (simp add: keys_replacements distinct_placeholders)
  obtain pre post where split: "?reps = pre @ (tok, v) # post"
    using tv by (meson split_list)
  have tok: "tok \<in> set placeholders"
    using tv keys_replacements [of tm dt data] by (metis fst_conv image_eqI set_map)
  have others: "\<forall>pr \<in> set pre \<union> set post. fst pr \<in> set placeholders \<and> fst pr \<noteq> tok"
  proof
    fix pr assume pr: "pr \<in> set pre \<union> set post"
    then have "pr \<in> set ?reps" using split by auto
    then have "fst pr \<in> set placeholders"
      using keys_replacements [of tm dt data] by (metis image_eqI set_map)
    moreover have "fst pr \<noteq> tok"
      using d pr unfolding split by auto
    ultimately show "fst pr \<in> set placeholders \<and> fst pr \<noteq> tok" by simp
  qed
  obtain t where t: "tok = CHR ''{'' # t" using placeholder_shape [OF tok] by blast
  have m0: "a @ tok @ b @ ?tail = a @ concat (map (\<lambda>b. tok @ b) (b # bs))" by simp
  have "\<forall>pr \<in> set pre. index_of (fst pr) (a @ tok @ b @ ?tail) = None"
    unfolding m0 using others other_placeholder_absent [OF _ tok _ a, of _ "b # bs"] b bs by simp
  then have s1: "fold ?step pre (a @ tok @ b @ ?tail) = a @ tok @ b @ ?tail"
    by (rule fold_replace_none)
  have s2: "js_replace tok v (a @ tok @ b @ ?tail) = a @ v @ b @ ?tail"
    using js_replace_first [OF _ v(2), of "CHR ''{''" a t "b @ ?tail"] a t by simp
  have "CHR ''{'' \<notin> set (a @ v @ b)" using a b v(1) by simp
  then have "\<forall>pr \<in> set post. index_of (fst pr) ((a @ v @ b) @ ?tail) = None"
    using others other_placeholder_absent [OF _ tok _ _ bs, of _ "a @ v @ b"] by simp
  then have s3: "fold ?step post ((a @ v @ b) @ ?tail) = (a @ v @ b) @ ?tail"
    by (rule fold_replace_none)
  show ?thesis
    using s1 s2 s3 by (simp add: formatMessage_fold split)
qed














text \<open>Templates as pieces: one \<^verbatim>\<open>replace\<close> fills the first hole of its placeholder.\<close>

lemma flatten_simps [simp]:
  "flatten [] = []" "flatten (x # ps) = piece_text x @ flatten ps"
  by (simp_all add: flatten_def)













section \<open>Rendering a falsy field\<close>



section \<open>The event data\<close>

text \<open>A property of the payload is the property of the event data, whatever the aliases give.\<close>

lemma eventData_body_wins:
  "obj_get (spread body) k = Some v \<Longrightarrow> eventData body queryMessage k = Some v"
  by (simp add: eventData_def)

lemma eventData_alias:
  "obj_get (spread body) k = None \<Longrightarrow> eventData body queryMessage k = aliasFields body queryMessage k"
  by (simp add: eventData_def map_add_def)

text \<open>
  C3. The claim is that a payload with an empty or \<^verbatim>\<open>null\<close> \<^verbatim>\<open>callerNumber\<close> and a
  \<^verbatim>\<open>caller\<close> or \<^verbatim>\<open>from\<close> resolves \<^verbatim>\<open>callerNumber\<close> to the latter. The alias expression
  does compute that value, but the spread of the payload, which comes after it, puts the
  payload's own \<^verbatim>\<open>callerNumber\<close> back: the event data hold the empty string (or
  \<^verbatim>\<open>null\<close>), and the message shows \<^verbatim>\<open>Unknown\<close>. The same happens to \<^verbatim>\<open>extension\<close>.
\<close>

theorem eventData_payload_overrides_alias:
  "eventData (JObj [(''callerNumber'', JStr []), (''caller'', JStr ''+15551234567'')]) None
     ''callerNumber'' = Some (JStr [])
   \<and> aliasFields (JObj [(''callerNumber'', JStr []), (''caller'', JStr ''+15551234567'')]) None
     ''callerNumber'' = Some (JStr ''+15551234567'')
   \<and> eventData (JObj [(''callerNumber'', JNull), (''from'', JStr ''+15551234567'')]) None
     ''callerNumber'' = Some JNull
   \<and> eventData (JObj [(''extension'', JNull), (''to'', JStr ''101'')]) None
     ''extension'' = Some JNull
   \<and> formatMessage ''12:00:00 AM'' ''1/1/2025'' (Some (JStr ''From: {callerNumber}''))
       (eventData (JObj [(''callerNumber'', JStr []), (''caller'', JStr ''+15551234567'')]) None)
     = Inr ''From: Unknown''"
proof -
  let ?body = "JObj [(''callerNumber'', JStr []), (''caller'', JStr ''+15551234567'')]"
  have 1: "eventData ?body None ''callerNumber'' = Some (JStr [])"
    by (simp add: eventData_def obj_get_def)
  have 2: "aliasFields ?body None ''callerNumber'' = Some (JStr ''+15551234567'')"
    by (simp add: aliasFields_def obj_get_def js_or_def)
  have 3: "eventData (JObj [(''callerNumber'', JNull), (''from'', JStr ''+15551234567'')]) None
     ''callerNumber'' = Some JNull"
    by (simp add: eventData_def obj_get_def)
  have 4: "eventData (JObj [(''extension'', JNull), (''to'', JStr ''101'')]) None
     ''extension'' = Some JNull"
    by (simp add: eventData_def obj_get_def)
  have "(''{callerNumber}'', ''Unknown'') \<in>
      set (replacements ''12:00:00 AM'' ''1/1/2025'' (eventData ?body None))"
    by (simp add: replacements_def 1 js_or_lit_def)
  then have 5: "formatMessage ''12:00:00 AM'' ''1/1/2025'' (Some (JStr ''From: {callerNumber}''))
       (eventData ?body None) = Inr ''From: Unknown''"
    using render_occurrences [of "''{callerNumber}''" "''Unknown''" "''12:00:00 AM''" "''1/1/2025''"
        "eventData ?body None" "''From: ''" "[]" "[]"]
    by simp
  show ?thesis using 1 2 3 4 5 by simp
qed

end
